theory Spec2Isabelle
  imports Complex_Main "HOL-Library.Log_Nat" "HOL-Library.Sublist"
begin

section \<open>JavaScript numbers\<close>

text \<open>
  The scoring services compute with JavaScript numbers, that is with IEEE 754 binary64
  values. A finite double is a rational, so a number is modelled as \<open>NaN\<close> or a rational,
  and every arithmetic operation rounds its exact result to the nearest double, ties to
  even (\<open>fl\<close>). The exponent range is not bounded and there are no infinities and no
  negative zero: the scores handled here are far from both ends of the range.
\<close>

datatype jsnum = NaN | Fin rat

definition pow2 :: "int \<Rightarrow> rat" where
  "pow2 e = (if 0 \<le> e then 2 ^ nat e else 1 / 2 ^ nat (- e))"

definition ilog2 :: "rat \<Rightarrow> int" where
  \<comment> \<open>the binary exponent of a positive rational: \<open>2 ^ ilog2 x \<le> x < 2 ^ (ilog2 x + 1)\<close>\<close>
  "ilog2 x = (if 1 \<le> x then int (floorlog 2 (nat \<lfloor>x\<rfloor>)) - 1
              else - int (floorlog 2 (nat (\<lceil>1 / x\<rceil> - 1))))"

definition rne :: "rat \<Rightarrow> int" where
  \<comment> \<open>round to the nearest integer, ties to the even one\<close>
  "rne y = (let f = \<lfloor>y\<rfloor>; d = y - of_int f
            in if d < 1 / 2 then f
               else if 1 / 2 < d then f + 1
               else if even f then f else f + 1)"

definition fl :: "rat \<Rightarrow> rat" where
  \<comment> \<open>the nearest double: 53 significant bits\<close>
  "fl x = (if x = 0 then 0
           else let e = ilog2 \<bar>x\<bar> - 52
                in sgn x * of_int (rne (\<bar>x\<bar> / pow2 e)) * pow2 e)"

fun js_mul :: "jsnum \<Rightarrow> jsnum \<Rightarrow> jsnum" where
  "js_mul (Fin x) (Fin y) = Fin (fl (x * y))"
| "js_mul _ _ = NaN"

fun js_add :: "jsnum \<Rightarrow> jsnum \<Rightarrow> jsnum" where
  "js_add (Fin x) (Fin y) = Fin (fl (x + y))"
| "js_add _ _ = NaN"

fun js_sub :: "jsnum \<Rightarrow> jsnum \<Rightarrow> jsnum" where
  "js_sub (Fin x) (Fin y) = Fin (fl (x - y))"
| "js_sub _ _ = NaN"

fun js_div :: "jsnum \<Rightarrow> jsnum \<Rightarrow> jsnum" where
  \<comment> \<open>a zero divisor gives an infinity or NaN in JavaScript; the one division of the
      services is guarded by \<open>totalSkills > 0\<close>\<close>
  "js_div (Fin x) (Fin y) = (if y = 0 then NaN else Fin (fl (x / y)))"
| "js_div _ _ = NaN"

fun js_ge :: "jsnum \<Rightarrow> jsnum \<Rightarrow> bool" where
  "js_ge (Fin x) (Fin y) = (y \<le> x)"
| "js_ge _ _ = False"

fun math_round :: "jsnum \<Rightarrow> jsnum" where
  \<comment> \<open>\<open>Math.round\<close>: the nearest integer, a tie goes up\<close>
  "math_round NaN = NaN"
| "math_round (Fin x) = Fin (of_int \<lfloor>x + 1 / 2\<rfloor>)"

fun math_min :: "jsnum \<Rightarrow> jsnum \<Rightarrow> jsnum" where
  "math_min (Fin x) (Fin y) = Fin (min x y)"
| "math_min _ _ = NaN"

fun math_max :: "jsnum \<Rightarrow> jsnum \<Rightarrow> jsnum" where
  "math_max (Fin x) (Fin y) = Fin (max x y)"
| "math_max _ _ = NaN"

definition num_lit :: "rat \<Rightarrow> jsnum" where
  \<comment> \<open>a decimal literal of the source denotes the nearest double\<close>
  "num_lit x = Fin (fl x)"

definition length_num :: "'a list \<Rightarrow> jsnum" where
  "length_num xs = Fin (of_nat (length xs))"

section \<open>JavaScript values\<close>

text \<open>
  The reply of the language model is decoded by \<open>JSON.parse\<close> and handed on untyped
  (\<open>any\<close>), so the semantic result is a JSON value. An object is an association list
  whose first binding of a key is the property.
\<close>

datatype jsval =
    JUndefined
  | JNull
  | JBool bool
  | JNum jsnum
  | JStr string
  | JArr "jsval list"
  | JObj "(string \<times> jsval) list"

type_synonym jsobject = "(string \<times> jsval) list"

datatype js_error = TypeError | SyntaxError | NetworkError | GeminiApiError nat | NoJsonFound

fun truthy :: "jsval \<Rightarrow> bool" where
  "truthy JUndefined = False"
| "truthy JNull = False"
| "truthy (JBool b) = b"
| "truthy (JNum NaN) = False"
| "truthy (JNum (Fin x)) = (x \<noteq> 0)"
| "truthy (JStr s) = (s \<noteq> [])"
| "truthy (JArr xs) = True"
| "truthy (JObj kvs) = True"

definition js_or :: "jsval \<Rightarrow> jsval \<Rightarrow> jsval" where
  \<comment> \<open>\<open>a || b\<close>\<close>
  "js_or a b = (if truthy a then a else b)"

definition get_prop :: "jsobject \<Rightarrow> string \<Rightarrow> jsval" where
  \<comment> \<open>\<open>obj.key\<close> for a key that \<open>Object.prototype\<close> does not define\<close>
  "get_prop obj k = (case map_of obj k of None \<Rightarrow> JUndefined | Some v \<Rightarrow> v)"

fun to_number :: "(jsval \<Rightarrow> jsnum) \<Rightarrow> jsval \<Rightarrow> jsnum" where
  \<comment> \<open>ToNumber; the conversion of strings, arrays and objects is the runtime's and is
      the parameter \<open>coerce\<close>\<close>
  "to_number coerce JUndefined = NaN"
| "to_number coerce JNull = Fin 0"
| "to_number coerce (JBool b) = Fin (if b then 1 else 0)"
| "to_number coerce (JNum n) = n"
| "to_number coerce v = coerce v"

fun member :: "jsval \<Rightarrow> string \<Rightarrow> js_error + jsval" where
  \<comment> \<open>\<open>v.key\<close> on an untyped value: reading a property of \<open>undefined\<close> or \<open>null\<close> throws\<close>
  "member JUndefined k = Inl TypeError"
| "member JNull k = Inl TypeError"
| "member (JObj kvs) k = Inr (get_prop kvs k)"
| "member v k = Inr JUndefined"

fun index0 :: "jsval \<Rightarrow> js_error + jsval" where
  \<comment> \<open>\<open>v[0]\<close> on an untyped value\<close>
  "index0 JUndefined = Inl TypeError"
| "index0 JNull = Inl TypeError"
| "index0 (JArr []) = Inr JUndefined"
| "index0 (JArr (x # xs)) = Inr x"
| "index0 (JStr []) = Inr JUndefined"
| "index0 (JStr (c # cs)) = Inr (JStr [c])"
| "index0 (JObj kvs) = Inr (get_prop kvs ''0'')"
| "index0 v = Inr JUndefined"

definition and_then :: "'e + 'a \<Rightarrow> ('a \<Rightarrow> 'e + 'b) \<Rightarrow> 'e + 'b" where
  "and_then r f = (case r of Inl e \<Rightarrow> Inl e | Inr v \<Rightarrow> f v)"

section \<open>Strings\<close>

text \<open>
  Strings are ASCII texts: \<open>toLowerCase\<close> maps the letters A to Z and leaves every
  other character as it is. JavaScript also lower-cases the letters outside ASCII; such
  letters are outside this development, and every skill name, variation and keyword of
  the tables is ASCII.
\<close>

definition lower_char :: "char \<Rightarrow> char" where
  "lower_char c = (let n = (of_char c :: nat) in if 65 \<le> n \<and> n \<le> 90 then char_of (n + 32) else c)"

definition toLowerCase :: "string \<Rightarrow> string" where
  "toLowerCase s = map lower_char s"

fun str_includes :: "string \<Rightarrow> string \<Rightarrow> bool" where
  \<comment> \<open>\<open>String.prototype.includes\<close>: \<open>needle\<close> occurs in the text\<close>
  "str_includes [] needle = (needle = [])"
| "str_includes (c # cs) needle = (prefix needle (c # cs) \<or> str_includes cs needle)"

definition regex_match_braces :: "string \<Rightarrow> string option" where
  \<comment> \<open>the match of an opening brace, any characters (greedy), a closing brace: from the
      first opening brace to the last closing brace after it\<close>
  "regex_match_braces txt =
     (case dropWhile (\<lambda>c. c \<noteq> CHR ''{'') txt of
        [] \<Rightarrow> None
      | b # rest \<Rightarrow>
          if CHR ''}'' \<in> set rest
          then Some (b # rev (dropWhile (\<lambda>c. c \<noteq> CHR ''}'') (rev rest)))
          else None)"

fun str_match :: "jsval \<Rightarrow> js_error + string option" where
  \<comment> \<open>\<open>responseText.match(...)\<close> on an untyped value: only a string has the method\<close>
  "str_match (JStr s) = Inr (regex_match_braces s)"
| "str_match v = Inl TypeError"

section \<open>The job description and the skill matcher\<close>

record job_description =
  job_id :: int
  title :: string
  company :: string
  description :: string
  must_have_skills :: "string list"
  good_to_have_skills :: "string list"
  experience_required :: string
  education_required :: "string list"

record hard_match_result =
  hard_match_score :: jsnum
  matched_skills :: "string list"
  missing_skills :: "string list"
  critical_missing_skills :: "string list"

definition skillVariations :: "(string \<times> string list) list" where
  "skillVariations =
    [(''javascript'', [''js'', ''node.js'', ''nodejs'', ''react'', ''angular'', ''vue'']),
     (''python'', [''py'', ''django'', ''flask'', ''fastapi'', ''pandas'', ''numpy'']),
     (''java'', [''spring'', ''hibernate'', ''maven'', ''gradle'']),
     (''react'', [''reactjs'', ''react.js'', ''jsx'', ''hooks'']),
     (''angular'', [''angularjs'', ''angular.js'', ''typescript'']),
     (''machine learning'', [''ml'', ''ai'', ''artificial intelligence'', ''tensorflow'', ''pytorch'']),
     (''sql'', [''mysql'', ''postgresql'', ''database'', ''db'']),
     (''aws'', [''amazon web services'', ''cloud'', ''ec2'', ''s3'', ''lambda'']),
     (''docker'', [''containerization'', ''kubernetes'', ''k8s'']),
     (''git'', [''github'', ''version control'', ''gitlab'', ''bitbucket''])]"

definition inherited_keys :: "string list" where
  \<comment> \<open>the lower-case property names that an object literal inherits from
      \<open>Object.prototype\<close>: indexing a table with one of them yields a value that is
      truthy and is not an array\<close>
  "inherited_keys = [''constructor'', ''__proto__'']"

definition isMatched :: "string \<Rightarrow> string \<Rightarrow> js_error + bool" where
  \<comment> \<open>the body shared by the loops over the skills, up to the final value of \<open>isMatched\<close>;
      calling \<open>some\<close> on an inherited property throws\<close>
  "isMatched resumeLower skill =
     (let skillLower = toLowerCase skill
      in if str_includes resumeLower skillLower then Inr True
         else (case map_of skillVariations skillLower of
                 Some variations \<Rightarrow>
                   Inr (list_ex (\<lambda>variation. str_includes resumeLower (toLowerCase variation)) variations)
               | None \<Rightarrow>
                   if skillLower \<in> set inherited_keys then Inl TypeError else Inr False))"

fun mustHave_forEach ::
  "string \<Rightarrow> string list \<Rightarrow> string list \<times> string list \<Rightarrow> js_error + string list \<times> string list"
where
  "mustHave_forEach resumeLower [] acc = Inr acc"
| "mustHave_forEach resumeLower (skill # rest) (matchedSkills, missingSkills) =
     (case isMatched resumeLower skill of
        Inl e \<Rightarrow> Inl e
      | Inr b \<Rightarrow>
          if b then mustHave_forEach resumeLower rest (matchedSkills @ [skill], missingSkills)
          else mustHave_forEach resumeLower rest (matchedSkills, missingSkills @ [skill]))"

fun goodToHave_forEach ::
  "string \<Rightarrow> string list \<Rightarrow> string list \<times> string list \<Rightarrow> js_error + string list \<times> string list"
where
  "goodToHave_forEach resumeLower [] acc = Inr acc"
| "goodToHave_forEach resumeLower (skill # rest) (matchedSkills, missingSkills) =
     (case isMatched resumeLower skill of
        Inl e \<Rightarrow> Inl e
      | Inr b \<Rightarrow>
          if b \<and> skill \<notin> set matchedSkills
          then goodToHave_forEach resumeLower rest (matchedSkills @ [skill], missingSkills)
          else if \<not> b \<and> skill \<notin> set missingSkills
          then goodToHave_forEach resumeLower rest (matchedSkills, missingSkills @ [skill])
          else goodToHave_forEach resumeLower rest (matchedSkills, missingSkills))"

definition performHardMatch :: "string \<Rightarrow> job_description \<Rightarrow> js_error + hard_match_result" where
  "performHardMatch resumeText jobDescription =
     (let resumeLower = toLowerCase resumeText;
          mustHaveSkills = must_have_skills jobDescription;
          goodToHaveSkills = good_to_have_skills jobDescription
      in and_then (mustHave_forEach resumeLower mustHaveSkills ([], [])) (\<lambda>acc.
         and_then (goodToHave_forEach resumeLower goodToHaveSkills acc) (\<lambda>(matchedSkills, missingSkills).
           let totalSkills = length mustHaveSkills + length goodToHaveSkills;
               hardMatchScore =
                 (if totalSkills > 0
                  then js_mul (js_div (length_num matchedSkills) (Fin (of_nat totalSkills))) (Fin 100)
                  else Fin 0)
           in Inr \<lparr> hard_match_score = math_round hardMatchScore,
                    matched_skills = matchedSkills,
                    missing_skills = missingSkills,
                    critical_missing_skills =
                      filter (\<lambda>skill. skill \<in> set mustHaveSkills) missingSkills \<rparr>)))"

section \<open>The semantic evaluator\<close>

text \<open>
  The request to the hosted model is the one effect of the service. Its outcome is an
  input of the model: \<open>None\<close> when \<open>fetch\<close> rejects, otherwise the response with its
  \<open>ok\<close> flag, its status and the value that \<open>response.json()\<close> resolves to (\<open>None\<close> when
  it rejects). \<open>JSON.parse\<close> is the runtime's: it is the parameter \<open>json_parse\<close>, which is
  only applied to a text that starts with an opening brace, where a successful parse is
  an object.
\<close>

record http_response =
  ok :: bool
  status :: nat
  json_body :: "jsval option"

definition getFallbackSemanticAnalysis :: jsobject where
  "getFallbackSemanticAnalysis =
    [(''semantic_match_score'', JNum (Fin 65)),
     (''strengths'', JArr [JStr ''Relevant technical background'', JStr ''Good educational foundation'']),
     (''weaknesses'', JArr [JStr ''Limited industry experience'', JStr ''Could improve project portfolio'']),
     (''missing_certifications'', JArr [JStr ''AWS Certification'', JStr ''Industry-specific certifications'']),
     (''missing_projects'', JArr [JStr ''Full-stack web application'', JStr ''Open source contributions'']),
     (''experience_gaps'', JArr [JStr ''Production environment experience'', JStr ''Team collaboration'']),
     (''education_gaps'', JArr [JStr ''Advanced technical courses'']),
     (''improvement_suggestions'',
        JArr [JStr ''Build more comprehensive projects'', JStr ''Contribute to open source'',
              JStr ''Get relevant certifications'', JStr ''Gain hands-on experience'']),
     (''recommended_courses'', JArr [JStr ''Advanced programming'', JStr ''System design'', JStr ''Cloud platforms'']),
     (''recommended_projects'', JArr [JStr ''E-commerce platform'', JStr ''API development'', JStr ''Mobile app'']),
     (''immediate_actions'', JArr [JStr ''Update LinkedIn profile'', JStr ''Start a new project'', JStr ''Apply for internships'']),
     (''short_term_goals'', JArr [JStr ''Complete certification'', JStr ''Build portfolio'', JStr ''Network with professionals'']),
     (''long_term_goals'', JArr [JStr ''Secure full-time role'', JStr ''Specialize in domain'']),
     (''skills_breakdown'',
        JObj [(''technical_skills'', JObj [(''matched'', JArr [JStr ''Programming'']), (''missing'', JArr [JStr ''Advanced frameworks''])]),
              (''soft_skills'', JObj [(''matched'', JArr [JStr ''Problem solving'']), (''missing'', JArr [JStr ''Leadership''])]),
              (''domain_knowledge'', JObj [(''matched'', JArr [JStr ''Basic concepts'']), (''missing'', JArr [JStr ''Industry experience''])])]),
     (''scoring_breakdown'',
        JObj [(''skills_match'', JNum (Fin 65)), (''experience_match'', JNum (Fin 50)),
              (''education_match'', JNum (Fin 70)), (''project_relevance'', JNum (Fin 60)),
              (''overall_fit'', JNum (Fin 65))]),
     (''confidence_score'', JNum (Fin 75))]"

definition llm_reply :: "(string \<Rightarrow> jsobject option) \<Rightarrow> http_response option \<Rightarrow> js_error + jsobject" where
  \<comment> \<open>the \<open>try\<close> block of \<open>performLLMAnalysis\<close>: \<open>Inl\<close> is an exception thrown in it\<close>
  "llm_reply json_parse outcome =
     (case outcome of
        None \<Rightarrow> Inl NetworkError
      | Some response \<Rightarrow>
          if \<not> ok response then Inl (GeminiApiError (status response))
          else (case json_body response of
                  None \<Rightarrow> Inl SyntaxError
                | Some data \<Rightarrow>
                    and_then (member data ''candidates'') (\<lambda>candidates.
                    and_then (index0 candidates) (\<lambda>candidate.
                    and_then (member candidate ''content'') (\<lambda>content.
                    and_then (member content ''parts'') (\<lambda>parts.
                    and_then (index0 parts) (\<lambda>part.
                    and_then (member part ''text'') (\<lambda>responseText.
                    and_then (str_match responseText) (\<lambda>jsonMatch.
                      (case jsonMatch of
                         Some matched \<Rightarrow>
                           (case json_parse matched of
                              None \<Rightarrow> Inl SyntaxError
                            | Some parsedResult \<Rightarrow> Inr parsedResult)
                       | None \<Rightarrow> Inl NoJsonFound))))))))))"

definition performLLMAnalysis :: "(string \<Rightarrow> jsobject option) \<Rightarrow> http_response option \<Rightarrow> jsobject" where
  \<comment> \<open>the \<open>catch\<close> clause answers every exception of the \<open>try\<close> block with the fallback\<close>
  "performLLMAnalysis json_parse outcome =
     (case llm_reply json_parse outcome of
        Inl error \<Rightarrow> getFallbackSemanticAnalysis
      | Inr parsedResult \<Rightarrow> parsedResult)"

section \<open>The hybrid scorer\<close>

datatype verdict = High | Medium | Low

record enhanced_analysis_result = hard_match_result +
  relevance_score :: jsnum
  verdict :: verdict
  semantic_match_score :: jsval
  missing_certifications :: jsval
  missing_projects :: jsval
  experience_gaps :: jsval
  education_gaps :: jsval
  strengths :: jsval
  weaknesses :: jsval
  improvement_suggestions :: jsval
  recommended_courses :: jsval
  recommended_projects :: jsval
  skills_breakdown :: jsval
  scoring_breakdown :: jsval
  immediate_actions :: jsval
  short_term_goals :: jsval
  long_term_goals :: jsval
  analysis_timestamp :: string
  confidence_score :: jsval

definition combineAnalysisResults ::
  "(jsval \<Rightarrow> jsnum) \<Rightarrow> hard_match_result \<Rightarrow> jsobject \<Rightarrow> job_description \<Rightarrow> string
     \<Rightarrow> enhanced_analysis_result"
where
  \<comment> \<open>\<open>now\<close> is the text of \<open>new Date().toISOString()\<close> at the call\<close>
  "combineAnalysisResults coerce hardMatch semantic jobDescription now =
     (let finalScore =
            math_round
              (js_add (js_mul (hard_match_score hardMatch) (num_lit (2 / 5)))
                      (js_mul (to_number coerce (get_prop semantic ''semantic_match_score'')) (num_lit (3 / 5))));
          verdict =
            (if js_ge finalScore (Fin 80) then High
             else if js_ge finalScore (Fin 50) then Medium
             else Low)
      in \<lparr> hard_match_score = hard_match_score hardMatch,
           matched_skills = matched_skills hardMatch,
           missing_skills = missing_skills hardMatch,
           critical_missing_skills = critical_missing_skills hardMatch,
           relevance_score = finalScore,
           verdict = verdict,
           semantic_match_score = get_prop semantic ''semantic_match_score'',
           missing_certifications = js_or (get_prop semantic ''missing_certifications'') (JArr []),
           missing_projects = js_or (get_prop semantic ''missing_projects'') (JArr []),
           experience_gaps = js_or (get_prop semantic ''experience_gaps'') (JArr []),
           education_gaps = js_or (get_prop semantic ''education_gaps'') (JArr []),
           strengths = js_or (get_prop semantic ''strengths'') (JArr []),
           weaknesses = js_or (get_prop semantic ''weaknesses'') (JArr []),
           improvement_suggestions = js_or (get_prop semantic ''improvement_suggestions'') (JArr []),
           recommended_courses = js_or (get_prop semantic ''recommended_courses'') (JArr []),
           recommended_projects = js_or (get_prop semantic ''recommended_projects'') (JArr []),
           skills_breakdown =
             js_or (get_prop semantic ''skills_breakdown'')
               (JObj [(''technical_skills'', JObj [(''matched'', JArr []), (''missing'', JArr [])]),
                      (''soft_skills'', JObj [(''matched'', JArr []), (''missing'', JArr [])]),
                      (''domain_knowledge'', JObj [(''matched'', JArr []), (''missing'', JArr [])])]),
           scoring_breakdown =
             js_or (get_prop semantic ''scoring_breakdown'')
               (JObj [(''skills_match'', JNum (hard_match_score hardMatch)),
                      (''experience_match'', JNum (Fin 70)),
                      (''education_match'', JNum (Fin 60)),
                      (''project_relevance'', JNum (Fin 65)),
                      (''overall_fit'', JNum finalScore)]),
           immediate_actions = js_or (get_prop semantic ''immediate_actions'') (JArr []),
           short_term_goals = js_or (get_prop semantic ''short_term_goals'') (JArr []),
           long_term_goals = js_or (get_prop semantic ''long_term_goals'') (JArr []),
           analysis_timestamp = now,
           confidence_score = js_or (get_prop semantic ''confidence_score'') (JNum (Fin 85)) \<rparr>)"

definition getFallbackAnalysis ::
  "(jsval \<Rightarrow> jsnum) \<Rightarrow> string \<Rightarrow> job_description \<Rightarrow> string \<Rightarrow> js_error + enhanced_analysis_result"
where
  "getFallbackAnalysis coerce resumeText jobDescription now =
     and_then (performHardMatch resumeText jobDescription) (\<lambda>basicHardMatch.
       Inr (combineAnalysisResults coerce basicHardMatch getFallbackSemanticAnalysis jobDescription now))"

definition analyzeResumeEnhanced ::
  "(jsval \<Rightarrow> jsnum) \<Rightarrow> (string \<Rightarrow> jsobject option) \<Rightarrow> http_response option \<Rightarrow> string
     \<Rightarrow> string \<Rightarrow> job_description \<Rightarrow> js_error + enhanced_analysis_result"
where
  \<comment> \<open>\<open>Inl\<close> is the rejection of the returned promise; an exception of the \<open>try\<close> block is
      answered by \<open>getFallbackAnalysis\<close>\<close>
  "analyzeResumeEnhanced coerce json_parse outcome now resumeText jobDescription =
     (case performHardMatch resumeText jobDescription of
        Inr hardMatchResult \<Rightarrow>
          Inr (combineAnalysisResults coerce hardMatchResult
                 (performLLMAnalysis json_parse outcome) jobDescription now)
      | Inl error \<Rightarrow> getFallbackAnalysis coerce resumeText jobDescription now)"

section \<open>The simple analysis service\<close>

text \<open>
  \<open>SimpleAnalysisService\<close> scores without the language model. Its report has the fields
  of the enhanced report; the ones modelled here are the scores, the verdict and the
  skill lists. The texts that \<open>getJobSpecificAnalysis\<close>, \<open>generateStrengths\<close>,
  \<open>generateWeaknesses\<close> and \<open>categorizeSkills\<close> add to it are left out.
\<close>

definition performHardMatch_Simple :: "string \<Rightarrow> job_description \<Rightarrow> js_error + hard_match_result" where
  \<comment> \<open>one loop over the concatenated lists, with the body of \<open>mustHave_forEach\<close>\<close>
  "performHardMatch_Simple resumeText jobDescription =
     (let resumeLower = toLowerCase resumeText;
          mustHaveSkills = must_have_skills jobDescription;
          goodToHaveSkills = good_to_have_skills jobDescription
      in and_then (mustHave_forEach resumeLower (mustHaveSkills @ goodToHaveSkills) ([], []))
           (\<lambda>(matchedSkills, missingSkills).
             let totalSkills = length mustHaveSkills + length goodToHaveSkills;
                 hardMatchScore =
                   (if totalSkills > 0
                    then math_round
                           (js_mul (js_div (length_num matchedSkills) (Fin (of_nat totalSkills))) (Fin 100))
                    else Fin 50)
             in Inr \<lparr> hard_match_score = hardMatchScore,
                      matched_skills = matchedSkills,
                      missing_skills = missingSkills,
                      critical_missing_skills =
                        filter (\<lambda>skill. skill \<in> set mustHaveSkills) missingSkills \<rparr>))"

definition jobKeywords :: "(string \<times> string list) list" where
  "jobKeywords =
    [(''software engineer'', [''development'', ''programming'', ''coding'', ''software'', ''application'', ''system'']),
     (''frontend developer'', [''ui'', ''ux'', ''responsive'', ''design'', ''user interface'', ''web'']),
     (''data scientist'', [''analysis'', ''statistics'', ''model'', ''prediction'', ''insights'', ''visualization''])]"

definition count_matches :: "string \<Rightarrow> string list \<Rightarrow> jsnum" where
  \<comment> \<open>the number of the words that occur in the resume\<close>
  "count_matches resumeLower ws = length_num (filter (\<lambda>w. str_includes resumeLower w) ws)"

definition calculateSemanticScore :: "job_description \<Rightarrow> string \<Rightarrow> jsnum \<Rightarrow> js_error + jsnum" where
  "calculateSemanticScore jobDescription resumeText hardScore =
     (let resumeLower = toLowerCase resumeText;
          jobTitle = toLowerCase (title jobDescription)
      in and_then
           (case map_of jobKeywords jobTitle of
              Some keywords \<Rightarrow> Inr keywords
            | None \<Rightarrow> if jobTitle \<in> set inherited_keys then Inl TypeError else Inr [])
           (\<lambda>relevantKeywords.
             let keywordBoost = math_min (Fin 20) (js_mul (count_matches resumeLower relevantKeywords) (Fin 3));
                 experienceIndicators =
                   [''years'', ''experience'', ''worked'', ''developed'', ''built'', ''led'', ''managed''];
                 experienceBoost = math_min (Fin 15) (js_mul (count_matches resumeLower experienceIndicators) (Fin 2));
                 projectIndicators = [''project'', ''built'', ''created'', ''developed'', ''implemented''];
                 projectBoost = math_min (Fin 10) (js_mul (count_matches resumeLower projectIndicators) (Fin 2));
                 semanticScore =
                   math_min (Fin 100)
                     (js_add (js_add (js_add hardScore keywordBoost) experienceBoost) projectBoost)
             in Inr (math_round semanticScore)))"

record scoring_breakdown_fields =
  skills_match :: jsnum
  experience_match :: jsnum
  education_match :: jsnum
  project_relevance :: jsnum
  overall_fit :: jsnum

record simple_analysis_result = hard_match_result +
  relevance_score_Simple :: jsnum
  verdict_Simple :: verdict
  semantic_match_score_Simple :: jsnum
  scoring_breakdown_Simple :: scoring_breakdown_fields
  confidence_score_Simple :: jsnum

definition generateComprehensiveAnalysis ::
  "hard_match_result \<Rightarrow> job_description \<Rightarrow> string \<Rightarrow> js_error + simple_analysis_result"
where
  "generateComprehensiveAnalysis hardMatch jobDescription resumeText =
     and_then (calculateSemanticScore jobDescription resumeText (hard_match_score hardMatch))
       (\<lambda>semanticScore.
         let finalScore =
               math_round
                 (js_add (js_mul (hard_match_score hardMatch) (num_lit (2 / 5)))
                         (js_mul semanticScore (num_lit (3 / 5))));
             verdict =
               (if js_ge finalScore (Fin 80) then High
                else if js_ge finalScore (Fin 60) then Medium
                else Low)
         in Inr \<lparr> hard_match_score = hard_match_score hardMatch,
                  matched_skills = matched_skills hardMatch,
                  missing_skills = missing_skills hardMatch,
                  critical_missing_skills = critical_missing_skills hardMatch,
                  relevance_score_Simple = finalScore,
                  verdict_Simple = verdict,
                  semantic_match_score_Simple = semanticScore,
                  scoring_breakdown_Simple =
                    \<lparr> skills_match = hard_match_score hardMatch,
                      experience_match = math_max (Fin 40) (js_sub finalScore (Fin 20)),
                      education_match = math_max (Fin 50) (js_sub finalScore (Fin 10)),
                      project_relevance = math_max (Fin 45) (js_sub finalScore (Fin 15)),
                      overall_fit = finalScore \<rparr>,
                  confidence_score_Simple =
                    math_max (Fin 75) (math_min (Fin 95) (js_add finalScore (Fin 10))) \<rparr>)"

definition analyzeResumeSimple :: "string \<Rightarrow> job_description \<Rightarrow> js_error + simple_analysis_result" where
  \<comment> \<open>the two seconds of simulated processing change no value\<close>
  "analyzeResumeSimple resumeText jobDescription =
     and_then (performHardMatch_Simple resumeText jobDescription) (\<lambda>hardMatchResult.
       generateComprehensiveAnalysis hardMatchResult jobDescription resumeText)"

section \<open>The multi-provider analysis service\<close>

text \<open>
  \<open>AIAnalysisService\<close> works on \<open>Partial<AnalysisResult>\<close>: every field may be absent
  (\<open>None\<close>). The lists and the feedback come out of \<open>JSON.parse\<close> and are JSON values.
\<close>

record partial_analysis_result =
  relevanceScore_opt :: "jsnum option"
  verdict_opt :: "verdict option"
  hardMatchScore_opt :: "jsnum option"
  semanticMatchScore_opt :: "jsnum option"
  matchedSkills_opt :: "string list option"
  missingSkills_opt :: "string list option"
  strengths_opt :: "jsval list option"
  gaps_opt :: "jsval list option"
  feedback_opt :: "jsval option"
  improvementSuggestions_opt :: "jsval list option"
  recommendedSkills_opt :: "jsval list option"

record analysis_result =
  relevanceScore :: jsnum
  verdict_AI :: verdict
  hardMatchScore :: jsnum
  semanticMatchScore :: jsnum
  matchedSkills :: "string list"
  missingSkills :: "string list"
  strengths_AI :: "jsval list"
  gaps :: "jsval list"
  feedback :: jsval
  improvementSuggestions :: "jsval list"
  recommendedSkills :: "jsval list"

definition empty_partial :: partial_analysis_result where
  "empty_partial =
     \<lparr> relevanceScore_opt = None, verdict_opt = None, hardMatchScore_opt = None,
       semanticMatchScore_opt = None, matchedSkills_opt = None, missingSkills_opt = None,
       strengths_opt = None, gaps_opt = None, feedback_opt = None,
       improvementSuggestions_opt = None, recommendedSkills_opt = None \<rparr>"

definition array_or_empty :: "jsval \<Rightarrow> jsval list" where
  \<comment> \<open>\<open>Array.isArray(v) ? v : []\<close>\<close>
  "array_or_empty v = (case v of JArr xs \<Rightarrow> xs | _ \<Rightarrow> [])"

definition parseAIResponse ::
  "(jsval \<Rightarrow> jsnum) \<Rightarrow> (string \<Rightarrow> jsobject option) \<Rightarrow> string \<Rightarrow> partial_analysis_result"
where
  "parseAIResponse coerce json_parse aiResponse =
     (case and_then (case regex_match_braces aiResponse of
                       None \<Rightarrow> Inl NoJsonFound
                     | Some matched \<Rightarrow> Inr matched)
             (\<lambda>matched. case json_parse matched of
                           None \<Rightarrow> Inl SyntaxError
                         | Some parsed \<Rightarrow> Inr parsed) of
        Inr parsed \<Rightarrow>
          empty_partial
            \<lparr> semanticMatchScore_opt :=
                Some (math_min (Fin 100)
                        (math_max (Fin 0)
                           (to_number coerce (js_or (get_prop parsed ''semanticMatchScore'') (JNum (Fin 0)))))),
              strengths_opt := Some (array_or_empty (get_prop parsed ''strengths'')),
              gaps_opt := Some (array_or_empty (get_prop parsed ''gaps'')),
              feedback_opt := Some (js_or (get_prop parsed ''feedback'') (JStr [])),
              improvementSuggestions_opt := Some (array_or_empty (get_prop parsed ''improvementSuggestions'')),
              recommendedSkills_opt := Some (array_or_empty (get_prop parsed ''recommendedSkills'')) \<rparr>
      | Inl error \<Rightarrow>
          empty_partial
            \<lparr> semanticMatchScore_opt := Some (Fin 50),
              strengths_opt := Some [JStr ''Experience in relevant field''],
              gaps_opt := Some [JStr ''Could improve technical skills''],
              feedback_opt := Some (JStr ''Resume shows potential but needs improvement in key areas.''),
              improvementSuggestions_opt :=
                Some [JStr ''Add more specific achievements'', JStr ''Include relevant certifications''],
              recommendedSkills_opt := Some [JStr ''Communication'', JStr ''Leadership''] \<rparr>)"

definition num_or :: "jsnum option \<Rightarrow> jsnum \<Rightarrow> jsnum" where
  \<comment> \<open>\<open>n || d\<close> on an optional number\<close>
  "num_or n d = (case n of Some v \<Rightarrow> if truthy (JNum v) then v else d | None \<Rightarrow> d)"

definition list_or :: "'a list option \<Rightarrow> 'a list \<Rightarrow> 'a list" where
  \<comment> \<open>\<open>xs || d\<close> on an optional array: every array is truthy\<close>
  "list_or xs d = (case xs of Some v \<Rightarrow> v | None \<Rightarrow> d)"

definition combineAnalysisResults_AI :: "partial_analysis_result \<Rightarrow> partial_analysis_result \<Rightarrow> analysis_result" where
  "combineAnalysisResults_AI hardMatch semantic =
     (let hardScore = num_or (hardMatchScore_opt hardMatch) (Fin 0);
          semanticScore = num_or (semanticMatchScore_opt semantic) (Fin 0);
          relevanceScore =
            math_round (js_add (js_mul hardScore (num_lit (2 / 5))) (js_mul semanticScore (num_lit (3 / 5))))
      in \<lparr> relevanceScore = relevanceScore,
           verdict_AI = Medium,
           hardMatchScore = hardScore,
           semanticMatchScore = semanticScore,
           matchedSkills = list_or (matchedSkills_opt hardMatch) [],
           missingSkills = list_or (missingSkills_opt hardMatch) [],
           strengths_AI = list_or (strengths_opt semantic) [],
           gaps = list_or (gaps_opt semantic) [],
           feedback = (case feedback_opt semantic of Some v \<Rightarrow> js_or v (JStr []) | None \<Rightarrow> JStr []),
           improvementSuggestions = list_or (improvementSuggestions_opt semantic) [],
           recommendedSkills = list_or (recommendedSkills_opt semantic) [] \<rparr>)"

definition generateVerdict :: "jsnum \<Rightarrow> verdict" where
  "generateVerdict score =
     (if js_ge score (Fin 80) then High
      else if js_ge score (Fin 50) then Medium
      else Low)"

section \<open>Auxiliary constants\<close>

definition ulp_bound :: rat where
  \<comment> \<open>a bound on the rounding error of one operation on values up to 256\<close>
  "ulp_bound = 1 / 2 ^ 45"

text \<open>A job of the demonstration data, used where a concrete job is needed.\<close>

definition sample_job :: job_description where
  "sample_job =
     \<lparr> job_id = 1, title = ''Senior Software Engineer'', company = ''Tech Solutions Inc'',
       description = ''Full-stack development'',
       must_have_skills = [''JavaScript'', ''React'', ''Node.js''],
       good_to_have_skills = [''TypeScript'', ''AWS''],
       experience_required = ''3+ years in software development'',
       education_required = [''Bachelor in Computer Science''] \<rparr>"

definition react_go_job :: job_description where
  "react_go_job = sample_job \<lparr> must_have_skills := [''React''], good_to_have_skills := [''Go''] \<rparr>"

definition gemini_body :: "string \<Rightarrow> jsval" where
  \<comment> \<open>the body of a well-formed reply of the provider around the generated text\<close>
  "gemini_body replyText =
     JObj [(''candidates'',
            JArr [JObj [(''content'', JObj [(''parts'', JArr [JObj [(''text'', JStr replyText)]])])]])]"

definition reply_with :: "string \<Rightarrow> http_response option" where
  "reply_with replyText = Some \<lparr> ok = True, status = 200, json_body = Some (gemini_body replyText) \<rparr>"

definition partial_semantic :: jsobject where
  \<comment> \<open>a semantic result that lacks most fields and has a zero confidence\<close>
  "partial_semantic =
     [(''semantic_match_score'', JNum (Fin 72)),
      (''strengths'', JArr [JStr ''Solid React experience'']),
      (''confidence_score'', JNum (Fin 0))]"

definition sample_hard :: hard_match_result where
  "sample_hard =
     \<lparr> hard_match_score = Fin 60,
       matched_skills = [''JavaScript'', ''React'', ''TypeScript''],
       missing_skills = [''Node.js'', ''AWS''],
       critical_missing_skills = [''Node.js''] \<rparr>"

definition sample_resume :: string where
  "sample_resume = ''Built React apps with typescript''"

definition reply_150 :: string where
  "reply_150 = ''Here is the analysis: {\"semantic_match_score\": 150}''"

definition parse_reply_150 :: "string \<Rightarrow> jsobject option" where
  \<comment> \<open>what \<open>JSON.parse\<close> returns on the one object text used here\<close>
  "parse_reply_150 s =
     (if s = ''{\"semantic_match_score\": 150}''
      then Some [(''semantic_match_score'', JNum (Fin 150))] else None)"

definition simple_hard :: "rat \<Rightarrow> hard_match_result" where
  "simple_hard score =
     \<lparr> hard_match_score = Fin score, matched_skills = [''React''],
       missing_skills = [''Go''], critical_missing_skills = [] \<rparr>"

definition claimed_hard_match_score :: "string list \<Rightarrow> string list \<Rightarrow> string list \<Rightarrow> jsnum" where
  \<comment> \<open>the score in the words of the specification: \<open>round(100 * |matched| / |mustHave \<union> goodToHave|)\<close>
      over sets, and 0 when the union is empty\<close>
  "claimed_hard_match_score matched mustHave goodToHave =
     (let n = card (set mustHave \<union> set goodToHave)
      in if n = 0 then Fin 0
         else Fin (of_int (round (100 * of_nat (card (set matched)) / of_nat n :: rat))))"

definition react_twice_job :: job_description where
  \<comment> \<open>a job that lists React as a must-have and as a good-to-have skill\<close>
  "react_twice_job = sample_job \<lparr> must_have_skills := [''React''], good_to_have_skills := [''React''] \<rparr>"

definition no_skills_job :: job_description where
  "no_skills_job = sample_job \<lparr> must_have_skills := [], good_to_have_skills := [] \<rparr>"


definition parse_empty_object :: "string \<Rightarrow> jsobject option" where
  \<comment> \<open>what \<open>JSON.parse\<close> returns on the text of the empty object\<close>
  "parse_empty_object s = (if s = ''{}'' then Some [] else None)"

definition blocked_reply :: "http_response option" where
  \<comment> \<open>a reply of the provider whose candidate carries no content\<close>
  "blocked_reply =
     Some \<lparr> ok = True, status = 200,
            json_body = Some (JObj [(''candidates'', JArr [JObj [(''finishReason'', JStr ''SAFETY'')]])]) \<rparr>"

section \<open>Rounding to the nearest double\<close>

lemma pow2_pos: "0 < pow2 e"
  by (simp add: pow2_def)

lemma pow2_Suc: "pow2 (e + 1) = 2 * pow2 e"
proof (cases "0 \<le> e")
  case True
  then show ?thesis by (simp add: pow2_def nat_add_distrib)
next
  case False
  then have "nat (- e) = Suc (nat (- (e + 1)))" by simp
  then show ?thesis using False by (auto simp add: pow2_def)
qed

lemma pow2_add_nat: "pow2 (e + int n) = 2 ^ n * pow2 e"
proof (induction n)
  case 0
  then show ?case by simp
next
  case (Suc n)
  have "pow2 (e + int (Suc n)) = pow2 ((e + int n) + 1)" by (simp add: algebra_simps)
  then show ?case using Suc by (simp add: pow2_Suc)
qed

lemma floorlog_lower_rat:
  assumes "0 < n"
  shows "(2::rat) ^ (floorlog 2 n - 1) \<le> of_nat n"
proof -
  have "2 ^ (floorlog 2 n - 1) \<le> n" using floorlog_bounds [of n 2] assms by simp
  then show ?thesis by (metis of_nat_le_iff of_nat_numeral of_nat_power)
qed

lemma floorlog_upper_rat:
  assumes "0 < n"
  shows "(of_nat n + 1 :: rat) \<le> 2 ^ floorlog 2 n"
proof -
  have "n < 2 ^ floorlog 2 n" using floorlog_bounds [of n 2] assms by simp
  then have "n + 1 \<le> 2 ^ floorlog 2 n" by simp
  then have "(of_nat (n + 1) :: rat) \<le> of_nat (2 ^ floorlog 2 n)"
    using of_nat_le_iff by blast
  then show ?thesis by simp
qed

lemma floorlog_pos: "0 < n \<Longrightarrow> 1 \<le> floorlog 2 n"
  by (simp add: floorlog_def)

lemma ceiling_pred_nat:
  assumes "0 < x" "x < 1"
  defines "n \<equiv> nat (\<lceil>1 / x\<rceil> - 1)"
  shows "0 < n" and "(of_nat n :: rat) < 1 / x" and "1 / x \<le> of_nat n + 1"
proof -
  have y1: "1 < 1 / x" using assms by simp
  then have c2: "2 \<le> \<lceil>1 / x\<rceil>" by linarith
  then show "0 < n" by (simp add: n_def)
  have "0 \<le> \<lceil>1 / x\<rceil> - 1" using c2 by linarith
  then have "int n = \<lceil>1 / x\<rceil> - 1" unfolding n_def by (simp only: int_nat_eq if_True)
  then have nc: "(of_nat n :: rat) = of_int \<lceil>1 / x\<rceil> - 1"
    by (metis of_int_1 of_int_diff of_int_of_nat_eq)
  have "of_int \<lceil>1 / x\<rceil> - 1 < 1 / x" by linarith
  then show "(of_nat n :: rat) < 1 / x" using nc by simp
  have "1 / x \<le> of_int \<lceil>1 / x\<rceil>" by simp
  then show "1 / x \<le> of_nat n + 1" using nc by simp
qed

lemma ilog2_lower:
  assumes "0 < x"
  shows "pow2 (ilog2 x) \<le> x"
proof (cases "1 \<le> x")
  case True
  define n where "n = nat \<lfloor>x\<rfloor>"
  have n1: "0 < n" using True by (simp add: n_def)
  have "(2::rat) ^ (floorlog 2 n - 1) \<le> of_nat n" by (rule floorlog_lower_rat [OF n1])
  also have "(of_nat n :: rat) \<le> x" using True by (simp add: n_def)
  finally have a: "(2::rat) ^ (floorlog 2 n - 1) \<le> x" .
  have "ilog2 x = int (floorlog 2 n - 1)"
    using True floorlog_pos [OF n1] by (simp add: ilog2_def n_def)
  then show ?thesis using a by (simp add: pow2_def)
next
  case False
  define n where "n = nat (\<lceil>1 / x\<rceil> - 1)"
  have x1: "x < 1" using False by simp
  have n1: "0 < n" unfolding n_def by (rule ceiling_pred_nat(1) [OF assms x1])
  have yle: "1 / x \<le> of_nat n + 1" unfolding n_def by (rule ceiling_pred_nat(3) [OF assms x1])
  have "1 / x \<le> 2 ^ floorlog 2 n" using yle floorlog_upper_rat [OF n1] by linarith
  then have b: "1 / 2 ^ floorlog 2 n \<le> x" using assms by (simp add: field_simps)
  have "ilog2 x = - int (floorlog 2 n)" using False by (simp add: ilog2_def n_def)
  then show ?thesis using b floorlog_pos [OF n1] by (simp add: pow2_def)
qed

lemma ilog2_upper:
  assumes "0 < x"
  shows "x < pow2 (ilog2 x + 1)"
proof (cases "1 \<le> x")
  case True
  define n where "n = nat \<lfloor>x\<rfloor>"
  have n1: "0 < n" using True by (simp add: n_def)
  have "x < of_int \<lfloor>x\<rfloor> + 1" by linarith
  also have "\<dots> = of_nat n + 1" using True by (simp add: n_def)
  finally have "x < 2 ^ floorlog 2 n" using floorlog_upper_rat [OF n1] by linarith
  moreover have "ilog2 x + 1 = int (floorlog 2 n)" using True by (simp add: ilog2_def n_def)
  ultimately show ?thesis by (simp add: pow2_def)
next
  case False
  define n where "n = nat (\<lceil>1 / x\<rceil> - 1)"
  have x1: "x < 1" using False by simp
  have n1: "0 < n" unfolding n_def by (rule ceiling_pred_nat(1) [OF assms x1])
  have nlt: "of_nat n < 1 / x" unfolding n_def by (rule ceiling_pred_nat(2) [OF assms x1])
  have "(2::rat) ^ (floorlog 2 n - 1) < 1 / x" using nlt floorlog_lower_rat [OF n1] by linarith
  then have b: "x < 1 / 2 ^ (floorlog 2 n - 1)" using assms by (simp add: field_simps)
  have k1: "1 \<le> floorlog 2 n" by (rule floorlog_pos [OF n1])
  have e: "ilog2 x + 1 = - int (floorlog 2 n - 1)" using False k1 by (simp add: ilog2_def n_def)
  show ?thesis
  proof (cases "floorlog 2 n = 1")
    case True
    then show ?thesis unfolding e using b by (simp add: pow2_def)
  next
    case False
    then have "nat (int (floorlog 2 n) - 1) = floorlog 2 n - 1" using k1 by linarith
    then show ?thesis unfolding e using b False k1 by (simp add: pow2_def)
  qed
qed

lemma rne_close: "\<bar>of_int (rne y) - y\<bar> \<le> 1 / 2"
proof -
  have "of_int \<lfloor>y\<rfloor> \<le> y" "y < of_int \<lfloor>y\<rfloor> + 1" by linarith+
  then show ?thesis by (auto simp add: rne_def Let_def)
qed

lemma fl_error: "\<bar>fl x - x\<bar> \<le> \<bar>x\<bar> / 2 ^ 53"
proof (cases "x = 0")
  case True
  then show ?thesis by (simp add: fl_def)
next
  case False
  define e where "e = ilog2 \<bar>x\<bar> - 52"
  define y where "y = \<bar>x\<bar> / pow2 e"
  have pe: "0 < pow2 e" by (rule pow2_pos)
  have xy: "\<bar>x\<bar> = y * pow2 e" using pe by (simp add: y_def)
  have "fl x = sgn x * of_int (rne y) * pow2 e"
    using False by (simp add: fl_def Let_def e_def y_def)
  moreover have "x = sgn x * y * pow2 e" using xy by (metis mult.assoc mult_sgn_abs)
  ultimately have "fl x - x = sgn x * (of_int (rne y) - y) * pow2 e"
    by (simp add: algebra_simps)
  then have "\<bar>fl x - x\<bar> = \<bar>of_int (rne y) - y\<bar> * pow2 e"
    using False pe by (simp add: abs_mult abs_sgn_eq)
  also have "\<dots> \<le> 1 / 2 * pow2 e"
    using rne_close [of y] pe by (simp add: mult_right_mono)
  finally have a: "\<bar>fl x - x\<bar> \<le> pow2 e / 2" by simp
  have "pow2 (e + int 52) = 2 ^ 52 * pow2 e" by (rule pow2_add_nat)
  moreover have "e + int 52 = ilog2 \<bar>x\<bar>" by (simp add: e_def)
  ultimately have "2 ^ 52 * pow2 e \<le> \<bar>x\<bar>"
    using ilog2_lower [of "\<bar>x\<bar>"] False by simp
  then have "pow2 e / 2 \<le> \<bar>x\<bar> / 2 ^ 53" by simp
  with a show ?thesis by linarith
qed

lemma ulp_bound_small: "0 < ulp_bound" "1000 * ulp_bound < 1 / 10"
  by (simp_all add: ulp_bound_def)

lemma fl_close:
  assumes "\<bar>x\<bar> \<le> 256"
  shows "\<bar>fl x - x\<bar> \<le> ulp_bound"
proof -
  have "\<bar>fl x - x\<bar> \<le> \<bar>x\<bar> / 2 ^ 53" by (rule fl_error)
  also have "\<dots> \<le> 256 / 2 ^ 53" using assms by (simp add: divide_right_mono)
  also have "\<dots> = ulp_bound" by (simp add: ulp_bound_def)
  finally show ?thesis .
qed

lemma fl_scaled_close:
  assumes "0 \<le> x" "x \<le> 100" "0 \<le> c" "c \<le> 1"
  shows "\<bar>fl (x * fl c) - x * c\<bar> \<le> 101 * ulp_bound"
proof -
  have c: "\<bar>fl c - c\<bar> \<le> ulp_bound" using assms by (intro fl_close) simp
  have "\<bar>x * fl c - x * c\<bar> = x * \<bar>fl c - c\<bar>"
    using assms by (simp add: abs_mult flip: right_diff_distrib)
  also have "\<dots> \<le> 100 * ulp_bound"
    using assms c by (intro mult_mono) simp_all
  finally have d: "\<bar>x * fl c - x * c\<bar> \<le> 100 * ulp_bound" .
  have "x * c \<le> 100 * 1" using assms by (intro mult_mono) simp_all
  moreover have "0 \<le> x * c" using assms by simp
  ultimately have "\<bar>x * fl c\<bar> \<le> 256" using d ulp_bound_small by linarith
  then have "\<bar>fl (x * fl c) - x * fl c\<bar> \<le> ulp_bound" by (rule fl_close)
  with d show ?thesis by linarith
qed

lemma weighted_sum_close:
  assumes "0 \<le> x" "x \<le> 100" "0 \<le> y" "y \<le> 100"
  shows "\<bar>fl (fl (x * fl (2 / 5)) + fl (y * fl (3 / 5))) - (x * (2 / 5) + y * (3 / 5))\<bar> < 1 / 10"
proof -
  define p where "p = fl (x * fl (2 / 5))"
  define q where "q = fl (y * fl (3 / 5))"
  have p: "\<bar>p - x * (2 / 5)\<bar> \<le> 101 * ulp_bound"
    unfolding p_def using assms by (intro fl_scaled_close) simp_all
  have q: "\<bar>q - y * (3 / 5)\<bar> \<le> 101 * ulp_bound"
    unfolding q_def using assms by (intro fl_scaled_close) simp_all
  have "\<bar>p + q\<bar> \<le> 256" using p q assms ulp_bound_small by linarith
  then have "\<bar>fl (p + q) - (p + q)\<bar> \<le> ulp_bound" by (rule fl_close)
  with p q show ?thesis unfolding p_def [symmetric] q_def [symmetric]
    using ulp_bound_small by linarith
qed

lemma round_fifths_robust:
  fixes n :: int and e :: rat
  assumes "\<bar>e\<bar> < 1 / 10"
  shows "\<lfloor>of_int n / 5 + e + 1 / 2\<rfloor> = round (of_int n / 5 :: rat)"
proof -
  define k where "k = n div 5"
  define r where "r = n mod 5"
  have n: "n = 5 * k + r" by (simp add: k_def r_def)
  have r: "0 \<le> r" "r < 5" by (simp_all add: r_def)
  have nq: "(of_int n :: rat) / 5 = of_int k + of_int r / 5" by (simp add: n)
  define j where "j = (if r < 3 then k else k + 1)"
  have lo: "(of_int j :: rat) + 1 / 10 \<le> of_int n / 5 + 1 / 2"
    and hi: "(of_int n :: rat) / 5 + 1 / 2 \<le> of_int j + 9 / 10"
  proof -
    consider "r = 0" | "r = 1" | "r = 2" | "r = 3" | "r = 4" using r by linarith
    then show "(of_int j :: rat) + 1 / 10 \<le> of_int n / 5 + 1 / 2"
      by cases (simp_all add: nq j_def)
    consider "r = 0" | "r = 1" | "r = 2" | "r = 3" | "r = 4" using r by linarith
    then show "(of_int n :: rat) / 5 + 1 / 2 \<le> of_int j + 9 / 10"
      by cases (simp_all add: nq j_def)
  qed
  have "\<lfloor>of_int n / 5 + e + 1 / 2\<rfloor> = j"
    using lo hi assms by (intro floor_unique) linarith+
  moreover have "round (of_int n / 5 :: rat) = j"
    unfolding round_def using lo hi by (intro floor_unique) linarith+
  ultimately show ?thesis by simp
qed

lemma weighted_round:
  fixes h s :: int
  assumes "0 \<le> h" "h \<le> 100" "0 \<le> s" "s \<le> 100"
  shows "math_round (js_add (js_mul (Fin (of_int h)) (num_lit (2 / 5)))
                            (js_mul (Fin (of_int s)) (num_lit (3 / 5))))
         = Fin (of_int (round (2 / 5 * of_int h + 3 / 5 * of_int s :: rat)))"
proof -
  define v where "v = fl (fl (of_int h * fl (2 / 5)) + fl (of_int s * fl (3 / 5)))"
  define e where "e = v - (of_int h * (2 / 5) + of_int s * (3 / 5))"
  have "\<bar>e\<bar> < 1 / 10" unfolding e_def v_def using assms by (intro weighted_sum_close) simp_all
  then have "\<lfloor>of_int (2 * h + 3 * s) / 5 + e + 1 / 2\<rfloor> = round (of_int (2 * h + 3 * s) / 5 :: rat)"
    by (rule round_fifths_robust)
  moreover have "of_int (2 * h + 3 * s) / 5 + e = v" by (simp add: e_def field_simps)
  moreover have "(of_int (2 * h + 3 * s) / 5 :: rat) = 2 / 5 * of_int h + 3 / 5 * of_int s"
    by (simp add: field_simps)
  ultimately have "\<lfloor>v + 1 / 2\<rfloor> = round (2 / 5 * of_int h + 3 / 5 * of_int s :: rat)"
    by (simp only:)
  then show ?thesis by (simp add: num_lit_def v_def)
qed

section \<open>The weighted relevance score\<close>

text \<open>
  C1. For every hard match score and semantic match score, each an integer in [0,100],
  the relevance score of the report is round(0.4 * hard + 0.6 * semantic) exactly. The
  code computes the two products and the sum in double precision before \<open>Math.round\<close>;
  the rounding errors never move the result, since the exact value is a multiple of
  one fifth and so stays away from every tie. This holds for \<open>combineAnalysisResults\<close>
  of the enhanced service and of the multi-provider service.
\<close>

theorem relevance_score_weighted:
  fixes h s :: int
  assumes "0 \<le> h" "h \<le> 100" "0 \<le> s" "s \<le> 100"
    and "hard_match_score hardMatch = Fin (of_int h)"
    and "get_prop semantic ''semantic_match_score'' = JNum (Fin (of_int s))"
    and "hardMatchScore_opt hardMatch_AI = Some (Fin (of_int h))"
    and "semanticMatchScore_opt semantic_AI = Some (Fin (of_int s))"
  shows "relevance_score (combineAnalysisResults coerce hardMatch semantic jobDescription now)
           = Fin (of_int (round (2 / 5 * of_int h + 3 / 5 * of_int s :: rat)))
       \<and> relevanceScore (combineAnalysisResults_AI hardMatch_AI semantic_AI)
           = Fin (of_int (round (2 / 5 * of_int h + 3 / 5 * of_int s :: rat)))"
proof
  show "relevance_score (combineAnalysisResults coerce hardMatch semantic jobDescription now)
           = Fin (of_int (round (2 / 5 * of_int h + 3 / 5 * of_int s :: rat)))"
    using assms(5,6) weighted_round [OF assms(1-4)]
    by (simp add: combineAnalysisResults_def Let_def)
  have "num_or (Some (Fin (of_int h))) (Fin 0) = Fin (of_int h)"
    and "num_or (Some (Fin (of_int s))) (Fin 0) = Fin (of_int s)"
    by (simp_all add: num_or_def)
  then show "relevanceScore (combineAnalysisResults_AI hardMatch_AI semantic_AI)
           = Fin (of_int (round (2 / 5 * of_int h + 3 / 5 * of_int s :: rat)))"
    using assms(7,8) weighted_round [OF assms(1-4)]
    by (simp add: combineAnalysisResults_AI_def Let_def)
qed

theorem relevance_score_weighted_witness:
  "relevance_score
     (combineAnalysisResults (\<lambda>v. NaN)
        \<lparr> hard_match_score = Fin 40, matched_skills = [''React'', ''TypeScript''],
          missing_skills = [''JavaScript'', ''Node.js'', ''AWS''],
          critical_missing_skills = [''JavaScript'', ''Node.js''] \<rparr>
        [(''semantic_match_score'', JNum (Fin 90))] sample_job ''2024-09-21T10:00:00.000Z'')
     = Fin 70
   \<and> relevanceScore
       (combineAnalysisResults_AI
          (empty_partial \<lparr> hardMatchScore_opt := Some (Fin 40) \<rparr>)
          (empty_partial \<lparr> semanticMatchScore_opt := Some (Fin 90) \<rparr>))
     = Fin 70"
  using relevance_score_weighted [of 40 90
      "\<lparr> hard_match_score = Fin 40, matched_skills = [''React'', ''TypeScript''],
          missing_skills = [''JavaScript'', ''Node.js'', ''AWS''],
          critical_missing_skills = [''JavaScript'', ''Node.js''] \<rparr>"
      "[(''semantic_match_score'', JNum (Fin 90))]"
      "empty_partial \<lparr> hardMatchScore_opt := Some (Fin 40) \<rparr>"
      "empty_partial \<lparr> semanticMatchScore_opt := Some (Fin 90) \<rparr>"
      "\<lambda>v. NaN" sample_job "''2024-09-21T10:00:00.000Z''"]
  by (simp add: get_prop_def empty_partial_def)

section \<open>The loops of the skill matcher\<close>

lemma isMatched_error:
  assumes "isMatched resumeLower skill = Inl e"
  shows "e = TypeError \<and> toLowerCase skill \<in> set inherited_keys"
  using assms by (auto simp add: isMatched_def Let_def split: if_splits option.splits)

lemma mustHave_forEach_result:
  assumes "mustHave_forEach rl ss (m, x) = Inr (m', x')"
  shows "m' = m @ filter (\<lambda>s. isMatched rl s = Inr True) ss
       \<and> x' = x @ filter (\<lambda>s. isMatched rl s = Inr False) ss
       \<and> (\<forall>s \<in> set ss. \<exists>b. isMatched rl s = Inr b)"
  using assms
proof (induction ss arbitrary: m x)
  case Nil
  then show ?case by simp
next
  case (Cons s ss)
  from Cons.prems obtain b where b: "isMatched rl s = Inr b"
    by (auto split: sum.splits)
  show ?case
  proof (cases b)
    case True
    with Cons.prems b have "mustHave_forEach rl ss (m @ [s], x) = Inr (m', x')" by simp
    from Cons.IH [OF this] show ?thesis using b True by auto
  next
    case False
    with Cons.prems b have "mustHave_forEach rl ss (m, x @ [s]) = Inr (m', x')" by simp
    from Cons.IH [OF this] show ?thesis using b False by auto
  qed
qed

lemma mustHave_forEach_error:
  assumes "mustHave_forEach rl ss acc = Inl e"
  shows "\<exists>s \<in> set ss. isMatched rl s = Inl e"
  using assms
proof (induction ss arbitrary: acc)
  case Nil
  then show ?case by simp
next
  case (Cons s ss)
  then show ?case by (cases acc) (auto split: sum.splits if_splits)
qed

lemma goodToHave_forEach_step:
  assumes "goodToHave_forEach rl (s # ss) (m, x) = Inr r"
  obtains b where "isMatched rl s = Inr b"
    and "goodToHave_forEach rl ss
           (if b \<and> s \<notin> set m then m @ [s] else m,
            if \<not> b \<and> s \<notin> set x then x @ [s] else x) = Inr r"
proof -
  from assms obtain b where b: "isMatched rl s = Inr b"
    by (auto split: sum.splits)
  with assms have "goodToHave_forEach rl ss
           (if b \<and> s \<notin> set m then m @ [s] else m,
            if \<not> b \<and> s \<notin> set x then x @ [s] else x) = Inr r"
    by (cases b) (simp_all split: if_splits)
  with b show thesis by (rule that)
qed

lemma remdups_snoc: "remdups (ys @ [x]) = remdups (filter (\<lambda>y. y \<noteq> x) ys) @ [x]"
  by (induction ys) auto

lemma first_occurrences_Cons:
  "rev (remdups (rev (x # xs))) = x # rev (remdups (rev (filter (\<lambda>y. y \<noteq> x) xs)))"
  by (simp add: remdups_snoc rev_filter)

lemma goodToHave_forEach_exact:
  assumes "goodToHave_forEach rl ss (m, x) = Inr (m', x')"
  shows "m' = m @ rev (remdups (rev (filter (\<lambda>s. isMatched rl s = Inr True \<and> s \<notin> set m) ss)))
       \<and> x' = x @ rev (remdups (rev (filter (\<lambda>s. isMatched rl s = Inr False \<and> s \<notin> set x) ss)))"
  using assms
proof (induction ss arbitrary: m x)
  case Nil
  then show ?case by simp
next
  case (Cons s ss)
  from Cons.prems obtain b where b: "isMatched rl s = Inr b"
    and rest: "goodToHave_forEach rl ss
           (if b \<and> s \<notin> set m then m @ [s] else m,
            if \<not> b \<and> s \<notin> set x then x @ [s] else x) = Inr (m', x')"
    by (rule goodToHave_forEach_step)
  let ?M = "\<lambda>acc t. isMatched rl t = Inr True \<and> t \<notin> set acc"
  let ?N = "\<lambda>acc t. isMatched rl t = Inr False \<and> t \<notin> set acc"
  have push: "filter (\<lambda>y. y \<noteq> s) (filter (\<lambda>t. P t \<and> t \<notin> set acc) ss)
          = filter (\<lambda>t. P t \<and> t \<notin> set (acc @ [s])) ss" for P acc
    by (induction ss) auto
  show ?case
  proof (cases "b \<and> s \<notin> set m")
    case True
    with rest have "goodToHave_forEach rl ss (m @ [s], x) = Inr (m', x')" by simp
    from Cons.IH [OF this] have
      m: "m' = (m @ [s]) @ rev (remdups (rev (filter (?M (m @ [s])) ss)))"
      and x: "x' = x @ rev (remdups (rev (filter (?N x) ss)))" by simp_all
    have "filter (?M m) (s # ss) = s # filter (?M m) ss" using b True by simp
    then have "rev (remdups (rev (filter (?M m) (s # ss))))
                 = s # rev (remdups (rev (filter (?M (m @ [s])) ss)))"
      by (simp only: first_occurrences_Cons push)
    moreover have "filter (?N x) (s # ss) = filter (?N x) ss" using b True by simp
    ultimately show ?thesis using m x by (simp only: append_assoc append_Cons append_Nil)
  next
    case nm: False
    show ?thesis
    proof (cases "\<not> b \<and> s \<notin> set x")
      case True
      with rest nm have "goodToHave_forEach rl ss (m, x @ [s]) = Inr (m', x')" by simp
      from Cons.IH [OF this] have
        m: "m' = m @ rev (remdups (rev (filter (?M m) ss)))"
        and x: "x' = (x @ [s]) @ rev (remdups (rev (filter (?N (x @ [s])) ss)))" by simp_all
      have "filter (?N x) (s # ss) = s # filter (?N x) ss" using b True by simp
      then have "rev (remdups (rev (filter (?N x) (s # ss))))
                   = s # rev (remdups (rev (filter (?N (x @ [s])) ss)))"
        by (simp only: first_occurrences_Cons push)
      moreover have "filter (?M m) (s # ss) = filter (?M m) ss" using b True by simp
      ultimately show ?thesis using m x by (simp only: append_assoc append_Cons append_Nil)
    next
      case False
      with rest nm have "goodToHave_forEach rl ss (m, x) = Inr (m', x')" by simp
      from Cons.IH [OF this] have
        m: "m' = m @ rev (remdups (rev (filter (?M m) ss)))"
        and x: "x' = x @ rev (remdups (rev (filter (?N x) ss)))" by simp_all
      have "filter (?M m) (s # ss) = filter (?M m) ss" using b nm by auto
      moreover have "filter (?N x) (s # ss) = filter (?N x) ss" using b False by auto
      ultimately show ?thesis using m x by (simp only:)
    qed
  qed
qed

lemma goodToHave_forEach_total:
  assumes "goodToHave_forEach rl ss (m, x) = Inr r"
  shows "\<forall>s \<in> set ss. \<exists>b. isMatched rl s = Inr b"
  using assms
proof (induction ss arbitrary: m x)
  case Nil
  then show ?case by simp
next
  case (Cons s ss)
  from Cons.prems obtain b where b: "isMatched rl s = Inr b"
    and rest: "goodToHave_forEach rl ss
           (if b \<and> s \<notin> set m then m @ [s] else m,
            if \<not> b \<and> s \<notin> set x then x @ [s] else x) = Inr r"
    by (rule goodToHave_forEach_step)
  from Cons.IH [OF rest] b show ?case by simp
qed

lemma goodToHave_forEach_matched:
  assumes "goodToHave_forEach rl ss (m, x) = Inr (m', x')"
  shows "\<exists>zs. m' = m @ zs \<and> subseq zs ss \<and> distinct zs
       \<and> set zs = {s \<in> set ss. isMatched rl s = Inr True} - set m"
  using assms
proof (induction ss arbitrary: m x)
  case Nil
  then show ?case by simp
next
  case (Cons s ss)
  from Cons.prems obtain b where b: "isMatched rl s = Inr b"
    and rest: "goodToHave_forEach rl ss
           (if b \<and> s \<notin> set m then m @ [s] else m,
            if \<not> b \<and> s \<notin> set x then x @ [s] else x) = Inr (m', x')"
    by (rule goodToHave_forEach_step)
  show ?case
  proof (cases "b \<and> s \<notin> set m")
    case True
    from Cons.IH [OF rest] True obtain zs where r:
      "m' = (m @ [s]) @ zs" "subseq zs ss" "distinct zs"
      "set zs = {s \<in> set ss. isMatched rl s = Inr True} - set (m @ [s])" by auto
    have "m' = m @ (s # zs)" using r(1) by simp
    moreover have "subseq (s # zs) (s # ss)" using r(2) by simp
    moreover have "distinct (s # zs)" using r(3,4) by simp
    moreover have "set (s # zs) = {t \<in> set (s # ss). isMatched rl t = Inr True} - set m"
      using r(4) True b by auto
    ultimately show ?thesis by (intro exI [of _ "s # zs"] conjI)
  next
    case False
    from Cons.IH [OF rest] False obtain zs where r:
      "m' = m @ zs" "subseq zs ss" "distinct zs"
      "set zs = {s \<in> set ss. isMatched rl s = Inr True} - set m" by auto
    have "subseq zs (s # ss)" using r(2) by (rule list_emb_Cons)
    moreover have "set zs = {t \<in> set (s # ss). isMatched rl t = Inr True} - set m"
      using r(4) False b by auto
    ultimately show ?thesis using r(1,3) by (intro exI [of _ zs] conjI)
  qed
qed

lemma goodToHave_forEach_missing:
  assumes "goodToHave_forEach rl ss (m, x) = Inr (m', x')"
  shows "\<exists>ws. x' = x @ ws \<and> subseq ws ss \<and> distinct ws
       \<and> set ws = {s \<in> set ss. isMatched rl s = Inr False} - set x"
  using assms
proof (induction ss arbitrary: m x)
  case Nil
  then show ?case by simp
next
  case (Cons s ss)
  from Cons.prems obtain b where b: "isMatched rl s = Inr b"
    and rest: "goodToHave_forEach rl ss
           (if b \<and> s \<notin> set m then m @ [s] else m,
            if \<not> b \<and> s \<notin> set x then x @ [s] else x) = Inr (m', x')"
    by (rule goodToHave_forEach_step)
  show ?case
  proof (cases "\<not> b \<and> s \<notin> set x")
    case True
    from Cons.IH [OF rest] True obtain ws where r:
      "x' = (x @ [s]) @ ws" "subseq ws ss" "distinct ws"
      "set ws = {s \<in> set ss. isMatched rl s = Inr False} - set (x @ [s])" by auto
    have "x' = x @ (s # ws)" using r(1) by simp
    moreover have "subseq (s # ws) (s # ss)" using r(2) by simp
    moreover have "distinct (s # ws)" using r(3,4) by simp
    moreover have "set (s # ws) = {t \<in> set (s # ss). isMatched rl t = Inr False} - set x"
      using r(4) True b by auto
    ultimately show ?thesis by (intro exI [of _ "s # ws"] conjI)
  next
    case False
    from Cons.IH [OF rest] False obtain ws where r:
      "x' = x @ ws" "subseq ws ss" "distinct ws"
      "set ws = {s \<in> set ss. isMatched rl s = Inr False} - set x" by auto
    have "subseq ws (s # ss)" using r(2) by (rule list_emb_Cons)
    moreover have "set ws = {t \<in> set (s # ss). isMatched rl t = Inr False} - set x"
      using r(4) False b by auto
    ultimately show ?thesis using r(1,3) by (intro exI [of _ ws] conjI)
  qed
qed

lemma goodToHave_forEach_error:
  assumes "goodToHave_forEach rl ss acc = Inl e"
  shows "\<exists>s \<in> set ss. isMatched rl s = Inl e"
  using assms
proof (induction ss arbitrary: acc)
  case Nil
  then show ?case by simp
next
  case (Cons s ss)
  then show ?case by (cases acc) (auto split: sum.splits if_splits)
qed

lemma performHardMatch_unfold:
  assumes "performHardMatch resumeText jd = Inr hm"
  obtains m1 x1 m2 x2 where
    "mustHave_forEach (toLowerCase resumeText) (must_have_skills jd) ([], []) = Inr (m1, x1)"
    "goodToHave_forEach (toLowerCase resumeText) (good_to_have_skills jd) (m1, x1) = Inr (m2, x2)"
    "matched_skills hm = m2" "missing_skills hm = x2"
    "critical_missing_skills hm = filter (\<lambda>skill. skill \<in> set (must_have_skills jd)) x2"
    "hard_match_score hm =
       math_round
         (if 0 < length (must_have_skills jd) + length (good_to_have_skills jd)
          then js_mul (js_div (length_num m2)
                         (Fin (of_nat (length (must_have_skills jd) + length (good_to_have_skills jd)))))
                 (Fin 100)
          else Fin 0)"
proof -
  from assms obtain acc where a:
    "mustHave_forEach (toLowerCase resumeText) (must_have_skills jd) ([], []) = Inr acc"
    by (auto simp add: performHardMatch_def and_then_def Let_def split: sum.splits)
  obtain m1 x1 where acc: "acc = (m1, x1)" by (cases acc)
  from assms a obtain r where b:
    "goodToHave_forEach (toLowerCase resumeText) (good_to_have_skills jd) acc = Inr r"
    by (auto simp add: performHardMatch_def and_then_def Let_def split: sum.splits)
  obtain m2 x2 where r: "r = (m2, x2)" by (cases r)
  from assms a b r have hm:
    "hm = \<lparr> hard_match_score =
       math_round
         (if 0 < length (must_have_skills jd) + length (good_to_have_skills jd)
          then js_mul (js_div (length_num m2)
                         (Fin (of_nat (length (must_have_skills jd) + length (good_to_have_skills jd)))))
                 (Fin 100)
          else Fin 0),
       matched_skills = m2, missing_skills = x2,
       critical_missing_skills = filter (\<lambda>skill. skill \<in> set (must_have_skills jd)) x2 \<rparr>"
    by (simp add: performHardMatch_def and_then_def Let_def)
  show thesis
  proof (rule that [of m1 x1 m2 x2])
    show "mustHave_forEach (toLowerCase resumeText) (must_have_skills jd) ([], []) = Inr (m1, x1)"
      using a acc by simp
    show "goodToHave_forEach (toLowerCase resumeText) (good_to_have_skills jd) (m1, x1) = Inr (m2, x2)"
      using b acc r by simp
  qed (simp_all add: hm)
qed

lemma performHardMatch_exact:
  assumes "performHardMatch resumeText jd = Inr hm"
  shows "matched_skills hm
           = filter (\<lambda>s. isMatched (toLowerCase resumeText) s = Inr True) (must_have_skills jd)
             @ rev (remdups (rev (filter
                 (\<lambda>s. isMatched (toLowerCase resumeText) s = Inr True \<and> s \<notin> set (must_have_skills jd))
                 (good_to_have_skills jd))))"
    and "missing_skills hm
           = filter (\<lambda>s. isMatched (toLowerCase resumeText) s = Inr False) (must_have_skills jd)
             @ rev (remdups (rev (filter
                 (\<lambda>s. isMatched (toLowerCase resumeText) s = Inr False \<and> s \<notin> set (must_have_skills jd))
                 (good_to_have_skills jd))))"
proof -
  let ?rl = "toLowerCase resumeText"
  from assms obtain m1 x1 m2 x2 where u:
    "mustHave_forEach ?rl (must_have_skills jd) ([], []) = Inr (m1, x1)"
    "goodToHave_forEach ?rl (good_to_have_skills jd) (m1, x1) = Inr (m2, x2)"
    "matched_skills hm = m2" "missing_skills hm = x2"
    by (rule performHardMatch_unfold)
  from mustHave_forEach_result [OF u(1)] have m1:
    "m1 = filter (\<lambda>s. isMatched ?rl s = Inr True) (must_have_skills jd)"
    and x1: "x1 = filter (\<lambda>s. isMatched ?rl s = Inr False) (must_have_skills jd)" by simp_all
  have fm: "filter (\<lambda>s. isMatched ?rl s = Inr True \<and> s \<notin> set m1) (good_to_have_skills jd)
          = filter (\<lambda>s. isMatched ?rl s = Inr True \<and> s \<notin> set (must_have_skills jd))
              (good_to_have_skills jd)"
    unfolding m1 by (rule filter_cong) auto
  have fx: "filter (\<lambda>s. isMatched ?rl s = Inr False \<and> s \<notin> set x1) (good_to_have_skills jd)
          = filter (\<lambda>s. isMatched ?rl s = Inr False \<and> s \<notin> set (must_have_skills jd))
              (good_to_have_skills jd)"
    unfolding x1 by (rule filter_cong) auto
  from goodToHave_forEach_exact [OF u(2)] have
    "m2 = m1 @ rev (remdups (rev (filter (\<lambda>s. isMatched ?rl s = Inr True \<and> s \<notin> set m1)
                                      (good_to_have_skills jd))))"
    and "x2 = x1 @ rev (remdups (rev (filter (\<lambda>s. isMatched ?rl s = Inr False \<and> s \<notin> set x1)
                                      (good_to_have_skills jd))))"
    by simp_all
  then show "matched_skills hm
           = filter (\<lambda>s. isMatched ?rl s = Inr True) (must_have_skills jd)
             @ rev (remdups (rev (filter
                 (\<lambda>s. isMatched ?rl s = Inr True \<and> s \<notin> set (must_have_skills jd))
                 (good_to_have_skills jd))))"
    and "missing_skills hm
           = filter (\<lambda>s. isMatched ?rl s = Inr False) (must_have_skills jd)
             @ rev (remdups (rev (filter
                 (\<lambda>s. isMatched ?rl s = Inr False \<and> s \<notin> set (must_have_skills jd))
                 (good_to_have_skills jd))))"
    unfolding u(3,4) fm fx m1 [symmetric] x1 [symmetric] by simp_all
qed

lemma performHardMatch_error:
  assumes "performHardMatch resumeText jd = Inl e"
  shows "e = TypeError
       \<and> (\<exists>s \<in> set (must_have_skills jd) \<union> set (good_to_have_skills jd).
            toLowerCase s \<in> set inherited_keys)"
proof -
  let ?rl = "toLowerCase resumeText"
  have "(\<exists>s \<in> set (must_have_skills jd). isMatched ?rl s = Inl e)
      \<or> (\<exists>s \<in> set (good_to_have_skills jd). isMatched ?rl s = Inl e)"
  proof (cases "mustHave_forEach ?rl (must_have_skills jd) ([], [])")
    case (Inl e')
    with assms have "e' = e" by (simp add: performHardMatch_def and_then_def Let_def)
    with Inl show ?thesis using mustHave_forEach_error by blast
  next
    case (Inr acc)
    with assms have "goodToHave_forEach ?rl (good_to_have_skills jd) acc = Inl e"
      by (auto simp add: performHardMatch_def and_then_def Let_def split: sum.splits)
    then show ?thesis using goodToHave_forEach_error by blast
  qed
  then obtain s where "s \<in> set (must_have_skills jd) \<union> set (good_to_have_skills jd)"
    "isMatched ?rl s = Inl e" by blast
  then show ?thesis using isMatched_error by blast
qed

lemma performHardMatch_lists:
  assumes "performHardMatch resumeText jd = Inr hm"
  shows "\<exists>zs ws.
      matched_skills hm
        = filter (\<lambda>s. isMatched (toLowerCase resumeText) s = Inr True) (must_have_skills jd) @ zs
    \<and> missing_skills hm
        = filter (\<lambda>s. isMatched (toLowerCase resumeText) s = Inr False) (must_have_skills jd) @ ws
    \<and> subseq zs (good_to_have_skills jd) \<and> subseq ws (good_to_have_skills jd)
    \<and> distinct zs \<and> distinct ws
    \<and> set zs = {s \<in> set (good_to_have_skills jd). isMatched (toLowerCase resumeText) s = Inr True}
               - set (must_have_skills jd)
    \<and> set ws = {s \<in> set (good_to_have_skills jd). isMatched (toLowerCase resumeText) s = Inr False}
               - set (must_have_skills jd)"
proof -
  let ?rl = "toLowerCase resumeText"
  from assms obtain m1 x1 m2 x2 where u:
    "mustHave_forEach ?rl (must_have_skills jd) ([], []) = Inr (m1, x1)"
    "goodToHave_forEach ?rl (good_to_have_skills jd) (m1, x1) = Inr (m2, x2)"
    "matched_skills hm = m2" "missing_skills hm = x2"
    by (rule performHardMatch_unfold)
  from mustHave_forEach_result [OF u(1)] have m1:
    "m1 = filter (\<lambda>s. isMatched ?rl s = Inr True) (must_have_skills jd)"
    and x1: "x1 = filter (\<lambda>s. isMatched ?rl s = Inr False) (must_have_skills jd)" by simp_all
  from goodToHave_forEach_matched [OF u(2)] obtain zs where zs:
    "m2 = m1 @ zs" "subseq zs (good_to_have_skills jd)" "distinct zs"
    "set zs = {s \<in> set (good_to_have_skills jd). isMatched ?rl s = Inr True} - set m1" by blast
  from goodToHave_forEach_missing [OF u(2)] obtain ws where ws:
    "x2 = x1 @ ws" "subseq ws (good_to_have_skills jd)" "distinct ws"
    "set ws = {s \<in> set (good_to_have_skills jd). isMatched ?rl s = Inr False} - set x1" by blast
  have "set zs = {s \<in> set (good_to_have_skills jd). isMatched ?rl s = Inr True} - set (must_have_skills jd)"
    unfolding zs(4) m1 by auto
  moreover have "set ws = {s \<in> set (good_to_have_skills jd). isMatched ?rl s = Inr False} - set (must_have_skills jd)"
    unfolding ws(4) x1 by auto
  moreover have "matched_skills hm = filter (\<lambda>s. isMatched ?rl s = Inr True) (must_have_skills jd) @ zs"
    using u(3) zs(1) m1 by simp
  moreover have "missing_skills hm = filter (\<lambda>s. isMatched ?rl s = Inr False) (must_have_skills jd) @ ws"
    using u(4) ws(1) x1 by simp
  ultimately show ?thesis using zs(2,3) ws(2,3) by (intro exI [of _ zs] exI [of _ ws] conjI)
qed

lemma performHardMatch_classified:
  assumes "performHardMatch resumeText jd = Inr hm"
    and "s \<in> set (must_have_skills jd) \<union> set (good_to_have_skills jd)"
  shows "\<exists>b. isMatched (toLowerCase resumeText) s = Inr b"
proof -
  let ?rl = "toLowerCase resumeText"
  from assms(1) obtain m1 x1 m2 x2 where u:
    "mustHave_forEach ?rl (must_have_skills jd) ([], []) = Inr (m1, x1)"
    "goodToHave_forEach ?rl (good_to_have_skills jd) (m1, x1) = Inr (m2, x2)"
    by (rule performHardMatch_unfold)
  from mustHave_forEach_result [OF u(1)] goodToHave_forEach_total [OF u(2)] assms(2)
  show ?thesis by blast
qed

lemma performHardMatch_sets:
  assumes "performHardMatch resumeText jd = Inr hm"
  shows "set (matched_skills hm)
           = {s \<in> set (must_have_skills jd) \<union> set (good_to_have_skills jd).
                isMatched (toLowerCase resumeText) s = Inr True}"
    and "set (missing_skills hm)
           = {s \<in> set (must_have_skills jd) \<union> set (good_to_have_skills jd).
                isMatched (toLowerCase resumeText) s = Inr False}"
proof -
  from performHardMatch_lists [OF assms] obtain zs ws where l:
    "matched_skills hm
        = filter (\<lambda>s. isMatched (toLowerCase resumeText) s = Inr True) (must_have_skills jd) @ zs"
    "missing_skills hm
        = filter (\<lambda>s. isMatched (toLowerCase resumeText) s = Inr False) (must_have_skills jd) @ ws"
    "set zs = {s \<in> set (good_to_have_skills jd). isMatched (toLowerCase resumeText) s = Inr True}
               - set (must_have_skills jd)"
    "set ws = {s \<in> set (good_to_have_skills jd). isMatched (toLowerCase resumeText) s = Inr False}
               - set (must_have_skills jd)" by blast
  show "set (matched_skills hm)
           = {s \<in> set (must_have_skills jd) \<union> set (good_to_have_skills jd).
                isMatched (toLowerCase resumeText) s = Inr True}"
    unfolding l(1) set_append l(3) by auto
  show "set (missing_skills hm)
           = {s \<in> set (must_have_skills jd) \<union> set (good_to_have_skills jd).
                isMatched (toLowerCase resumeText) s = Inr False}"
    unfolding l(2) set_append l(4) by auto
qed

lemma sample_hard_match:
  "performHardMatch ''Built React apps with typescript'' sample_job
     = Inr \<lparr> hard_match_score = Fin 60,
             matched_skills = [''JavaScript'', ''React'', ''TypeScript''],
             missing_skills = [''Node.js'', ''AWS''],
             critical_missing_skills = [''Node.js''] \<rparr>"
  by code_simp

section \<open>Invariants of the hard match result\<close>

text \<open>
  C4. For every resume text and job description, the hard match result partitions the
  union of the must-have and good-to-have skills: matched and missing together are the
  union, and no skill is in both. The matcher returns such a result on every input but
  one kind: it throws a \<open>TypeError\<close> when a skill that the resume does not contain is
  named like a property inherited from \<open>Object.prototype\<close>.
\<close>

theorem matched_missing_partition:
  "case performHardMatch resumeText jobDescription of
     Inr hardMatch \<Rightarrow>
       set (matched_skills hardMatch) \<union> set (missing_skills hardMatch)
         = set (must_have_skills jobDescription) \<union> set (good_to_have_skills jobDescription)
       \<and> set (matched_skills hardMatch) \<inter> set (missing_skills hardMatch) = {}
   | Inl e \<Rightarrow>
       e = TypeError
       \<and> (\<exists>s \<in> set (must_have_skills jobDescription) \<union> set (good_to_have_skills jobDescription).
            toLowerCase s \<in> set inherited_keys)"
proof (cases "performHardMatch resumeText jobDescription")
  case (Inl e)
  then show ?thesis using performHardMatch_error [OF Inl] by simp
next
  case (Inr hm)
  let ?all = "set (must_have_skills jobDescription) \<union> set (good_to_have_skills jobDescription)"
  let ?rl = "toLowerCase resumeText"
  have m: "set (matched_skills hm) = {s \<in> ?all. isMatched ?rl s = Inr True}"
    by (rule performHardMatch_sets(1) [OF Inr])
  have x: "set (missing_skills hm) = {s \<in> ?all. isMatched ?rl s = Inr False}"
    by (rule performHardMatch_sets(2) [OF Inr])
  have c: "\<forall>s \<in> ?all. \<exists>b. isMatched ?rl s = Inr b"
    using performHardMatch_classified [OF Inr] by blast
  have "set (matched_skills hm) \<union> set (missing_skills hm) = ?all"
  proof
    show "set (matched_skills hm) \<union> set (missing_skills hm) \<subseteq> ?all" unfolding m x by blast
    show "?all \<subseteq> set (matched_skills hm) \<union> set (missing_skills hm)"
    proof
      fix s assume s: "s \<in> ?all"
      with c obtain b where "isMatched ?rl s = Inr b" by blast
      with s show "s \<in> set (matched_skills hm) \<union> set (missing_skills hm)"
        unfolding m x by (cases b) simp_all
    qed
  qed
  moreover have "set (matched_skills hm) \<inter> set (missing_skills hm) = {}"
    unfolding m x by auto
  ultimately show ?thesis using Inr by simp
qed

theorem matched_missing_partition_witness:
  "set [''JavaScript'', ''React'', ''TypeScript''] \<union> set [''Node.js'', ''AWS'']
     = set (must_have_skills sample_job) \<union> set (good_to_have_skills sample_job)
   \<and> set [''JavaScript'', ''React'', ''TypeScript''] \<inter> set [''Node.js'', ''AWS''] = ({} :: string set)"
  using matched_missing_partition
      [where resumeText = "''Built React apps with typescript''" and jobDescription = sample_job]
  by (simp add: sample_hard_match)

text \<open>
  C5. For every resume text and job description, the critical missing skills of the
  result are exactly the missing skills that are must-have skills, in every report that
  the enhanced service builds from the result.
\<close>

theorem critical_missing_is_intersection:
  "case performHardMatch resumeText jobDescription of
     Inr hardMatch \<Rightarrow>
       critical_missing_skills hardMatch
         = filter (\<lambda>skill. skill \<in> set (must_have_skills jobDescription)) (missing_skills hardMatch)
       \<and> set (critical_missing_skills hardMatch)
           = set (missing_skills hardMatch) \<inter> set (must_have_skills jobDescription)
       \<and> set (critical_missing_skills
                 (combineAnalysisResults coerce hardMatch semantic jobDescription now))
           = set (missing_skills (combineAnalysisResults coerce hardMatch semantic jobDescription now))
             \<inter> set (must_have_skills jobDescription)
   | Inl e \<Rightarrow>
       e = TypeError
       \<and> (\<exists>s \<in> set (must_have_skills jobDescription) \<union> set (good_to_have_skills jobDescription).
            toLowerCase s \<in> set inherited_keys)"
proof (cases "performHardMatch resumeText jobDescription")
  case (Inl e)
  then show ?thesis using performHardMatch_error [OF Inl] by simp
next
  case (Inr hm)
  from Inr obtain m1 x1 m2 x2 where u:
    "missing_skills hm = x2"
    "critical_missing_skills hm = filter (\<lambda>skill. skill \<in> set (must_have_skills jobDescription)) x2"
    by (rule performHardMatch_unfold)
  have a: "critical_missing_skills hm
         = filter (\<lambda>skill. skill \<in> set (must_have_skills jobDescription)) (missing_skills hm)"
    using u by simp
  then have b: "set (critical_missing_skills hm)
           = set (missing_skills hm) \<inter> set (must_have_skills jobDescription)" by auto
  have "critical_missing_skills (combineAnalysisResults coerce hm semantic jobDescription now)
          = critical_missing_skills hm"
    and "missing_skills (combineAnalysisResults coerce hm semantic jobDescription now)
          = missing_skills hm"
    by (simp_all add: combineAnalysisResults_def Let_def)
  with a b show ?thesis using Inr by simp
qed

theorem critical_missing_is_intersection_witness:
  "critical_missing_skills
     (combineAnalysisResults (\<lambda>v. NaN)
        \<lparr> hard_match_score = Fin 60,
          matched_skills = [''JavaScript'', ''React'', ''TypeScript''],
          missing_skills = [''Node.js'', ''AWS''],
          critical_missing_skills = [''Node.js''] \<rparr>
        getFallbackSemanticAnalysis sample_job ''2024-09-21T10:00:00.000Z'') = [''Node.js'']
   \<and> set [''Node.js''] = set [''Node.js'', ''AWS''] \<inter> set (must_have_skills sample_job)"
  using critical_missing_is_intersection
      [where resumeText = "''Built React apps with typescript''" and jobDescription = sample_job
         and coerce = "\<lambda>v. NaN" and semantic = getFallbackSemanticAnalysis
         and now = "''2024-09-21T10:00:00.000Z''"]
  unfolding sample_hard_match sum.case
  by (simp add: combineAnalysisResults_def Let_def sample_job_def)

text \<open>
  C10. For every resume text and job description, the matched and the missing skills
  are taken as they are written in the job (never lower-cased) and keep the order of the
  lists: first the must-have skills of that class in their order, then, in their order,
  the good-to-have skills of that class that are not must-have skills, each once at its
  first occurrence (\<open>rev \<circ> remdups \<circ> rev\<close> keeps the first occurrence of every element).
  Every skill of the two lists is in one of the two classes.
\<close>

theorem skills_verbatim_in_order:
  "case performHardMatch resumeText jobDescription of
     Inr hardMatch \<Rightarrow>
       matched_skills hardMatch
         = filter (\<lambda>s. isMatched (toLowerCase resumeText) s = Inr True) (must_have_skills jobDescription)
           @ rev (remdups (rev (filter
               (\<lambda>s. isMatched (toLowerCase resumeText) s = Inr True
                    \<and> s \<notin> set (must_have_skills jobDescription))
               (good_to_have_skills jobDescription))))
       \<and> missing_skills hardMatch
         = filter (\<lambda>s. isMatched (toLowerCase resumeText) s = Inr False) (must_have_skills jobDescription)
           @ rev (remdups (rev (filter
               (\<lambda>s. isMatched (toLowerCase resumeText) s = Inr False
                    \<and> s \<notin> set (must_have_skills jobDescription))
               (good_to_have_skills jobDescription))))
       \<and> (\<forall>s \<in> set (must_have_skills jobDescription) \<union> set (good_to_have_skills jobDescription).
             isMatched (toLowerCase resumeText) s = Inr True
             \<or> isMatched (toLowerCase resumeText) s = Inr False)
       \<and> set (matched_skills hardMatch) \<union> set (missing_skills hardMatch)
           \<subseteq> set (must_have_skills jobDescription) \<union> set (good_to_have_skills jobDescription)
   | Inl e \<Rightarrow>
       e = TypeError
       \<and> (\<exists>s \<in> set (must_have_skills jobDescription) \<union> set (good_to_have_skills jobDescription).
            toLowerCase s \<in> set inherited_keys)"
proof (cases "performHardMatch resumeText jobDescription")
  case (Inl e)
  then show ?thesis using performHardMatch_error [OF Inl] by simp
next
  case (Inr hm)
  have cl: "\<forall>s \<in> set (must_have_skills jobDescription) \<union> set (good_to_have_skills jobDescription).
             isMatched (toLowerCase resumeText) s = Inr True
             \<or> isMatched (toLowerCase resumeText) s = Inr False"
  proof
    fix s assume "s \<in> set (must_have_skills jobDescription) \<union> set (good_to_have_skills jobDescription)"
    from performHardMatch_classified [OF Inr this] obtain b where
      "isMatched (toLowerCase resumeText) s = Inr b" ..
    then show "isMatched (toLowerCase resumeText) s = Inr True
             \<or> isMatched (toLowerCase resumeText) s = Inr False" by (cases b) simp_all
  qed
  have sub: "set (matched_skills hm) \<union> set (missing_skills hm)
           \<subseteq> set (must_have_skills jobDescription) \<union> set (good_to_have_skills jobDescription)"
    unfolding performHardMatch_sets(1) [OF Inr] performHardMatch_sets(2) [OF Inr] by blast
  show ?thesis
    unfolding Inr sum.case
    by (intro conjI performHardMatch_exact [OF Inr] cl sub)
qed

theorem skills_verbatim_in_order_witness:
  "[''JavaScript'', ''React'', ''TypeScript'']
     = filter (\<lambda>s. isMatched (toLowerCase ''Built React apps with typescript'') s = Inr True)
         (must_have_skills sample_job)
       @ rev (remdups (rev (filter
           (\<lambda>s. isMatched (toLowerCase ''Built React apps with typescript'') s = Inr True
                \<and> s \<notin> set (must_have_skills sample_job))
           (good_to_have_skills sample_job))))
   \<and> [''Node.js'', ''AWS'']
     = filter (\<lambda>s. isMatched (toLowerCase ''Built React apps with typescript'') s = Inr False)
         (must_have_skills sample_job)
       @ rev (remdups (rev (filter
           (\<lambda>s. isMatched (toLowerCase ''Built React apps with typescript'') s = Inr False
                \<and> s \<notin> set (must_have_skills sample_job))
           (good_to_have_skills sample_job))))"
  using skills_verbatim_in_order
      [where resumeText = "''Built React apps with typescript''" and jobDescription = sample_job]
  unfolding sample_hard_match sum.case hard_match_result.simps
  by blast

section \<open>The verdict\<close>

lemma combine_verdict:
  "verdict (combineAnalysisResults coerce hardMatch semantic jobDescription now)
     = generateVerdict (relevance_score (combineAnalysisResults coerce hardMatch semantic jobDescription now))"
  by (simp add: combineAnalysisResults_def generateVerdict_def Let_def)

lemma simple_verdict:
  assumes "generateComprehensiveAnalysis hardMatch jobDescription resumeText = Inr report"
  shows "verdict_Simple report
           = (if js_ge (relevance_score_Simple report) (Fin 80) then High
              else if js_ge (relevance_score_Simple report) (Fin 60) then Medium
              else Low)"
proof -
  from assms obtain semanticScore where
    "calculateSemanticScore jobDescription resumeText (hard_match_score hardMatch) = Inr semanticScore"
    by (auto simp add: generateComprehensiveAnalysis_def and_then_def split: sum.splits)
  with assms show ?thesis
    by (auto simp add: generateComprehensiveAnalysis_def and_then_def Let_def)
qed

lemma simple_react_go:
  "analyzeResumeSimple ''react'' react_go_job
     = Inr \<lparr> hard_match_score = Fin 50, matched_skills = [''React''],
             missing_skills = [''Go''], critical_missing_skills = [],
             relevance_score_Simple = Fin 50, verdict_Simple = Low,
             semantic_match_score_Simple = Fin 50,
             scoring_breakdown_Simple =
               \<lparr> skills_match = Fin 50, experience_match = Fin 40,
                 education_match = Fin 50, project_relevance = Fin 45,
                 overall_fit = Fin 50 \<rparr>,
             confidence_score_Simple = Fin 75 \<rparr>"
  by code_simp

text \<open>
  C2. The claim gives one threshold set, 80 and 50, to every scorer of the source.
  \<open>SimpleAnalysisService\<close> uses 80 and 60: a resume with a relevance score of 50 is
  \<open>Low\<close> there, where the claim says \<open>Medium\<close>.
\<close>

theorem verdict_thresholds_counterexample:
  "case analyzeResumeSimple ''react'' react_go_job of
     Inr report \<Rightarrow> relevance_score_Simple report = Fin 50 \<and> verdict_Simple report = Low
   | Inl e \<Rightarrow> False"
  by (simp add: simple_react_go)

text \<open>
  C2, amended. In every scorer the verdict is a function of the relevance score alone,
  without gaps or overlaps. The enhanced service and the multi-provider service use the
  thresholds 80 and 50: at least 80 is \<open>High\<close>, from 50 up to 80 is \<open>Medium\<close>, below 50 is
  \<open>Low\<close>. The simple service uses 80 and 60: at least 80 is \<open>High\<close>, from 60 up to 80 is
  \<open>Medium\<close>, below 60 is \<open>Low\<close>.
\<close>

theorem verdict_thresholds:
  "verdict (combineAnalysisResults coerce hardMatch semantic jobDescription now)
     = generateVerdict (relevance_score (combineAnalysisResults coerce hardMatch semantic jobDescription now))
   \<and> (80 \<le> x \<longrightarrow> generateVerdict (Fin x) = High)
   \<and> (50 \<le> x \<and> x < 80 \<longrightarrow> generateVerdict (Fin x) = Medium)
   \<and> (x < 50 \<longrightarrow> generateVerdict (Fin x) = Low)
   \<and> (generateComprehensiveAnalysis hardMatch jobDescription resumeText = Inr report
        \<and> relevance_score_Simple report = Fin y \<longrightarrow>
          (80 \<le> y \<longrightarrow> verdict_Simple report = High)
          \<and> (60 \<le> y \<and> y < 80 \<longrightarrow> verdict_Simple report = Medium)
          \<and> (y < 60 \<longrightarrow> verdict_Simple report = Low))"
proof (intro conjI impI)
  show "verdict (combineAnalysisResults coerce hardMatch semantic jobDescription now)
     = generateVerdict (relevance_score (combineAnalysisResults coerce hardMatch semantic jobDescription now))"
    by (rule combine_verdict)
next
  assume "80 \<le> x"
  then show "generateVerdict (Fin x) = High" by (simp add: generateVerdict_def)
next
  assume "50 \<le> x \<and> x < 80"
  then show "generateVerdict (Fin x) = Medium" by (simp add: generateVerdict_def)
next
  assume "x < 50"
  then show "generateVerdict (Fin x) = Low" by (simp add: generateVerdict_def)
next
  assume a: "generateComprehensiveAnalysis hardMatch jobDescription resumeText = Inr report
        \<and> relevance_score_Simple report = Fin y" and "80 \<le> y"
  then show "verdict_Simple report = High" using simple_verdict [of hardMatch jobDescription resumeText report]
    by simp
next
  assume a: "generateComprehensiveAnalysis hardMatch jobDescription resumeText = Inr report
        \<and> relevance_score_Simple report = Fin y" and "60 \<le> y \<and> y < 80"
  then show "verdict_Simple report = Medium" using simple_verdict [of hardMatch jobDescription resumeText report]
    by simp
next
  assume a: "generateComprehensiveAnalysis hardMatch jobDescription resumeText = Inr report
        \<and> relevance_score_Simple report = Fin y" and "y < 60"
  then show "verdict_Simple report = Low" using simple_verdict [of hardMatch jobDescription resumeText report]
    by simp
qed

lemma simple_low:
  "generateComprehensiveAnalysis (simple_hard 50) react_go_job ''react''
     = Inr \<lparr> hard_match_score = Fin 50, matched_skills = [''React''],
             missing_skills = [''Go''], critical_missing_skills = [],
             relevance_score_Simple = Fin 50, verdict_Simple = Low,
             semantic_match_score_Simple = Fin 50,
             scoring_breakdown_Simple =
               \<lparr> skills_match = Fin 50, experience_match = Fin 40,
                 education_match = Fin 50, project_relevance = Fin 45,
                 overall_fit = Fin 50 \<rparr>,
             confidence_score_Simple = Fin 75 \<rparr>"
  by code_simp

lemma simple_medium:
  "generateComprehensiveAnalysis (simple_hard 50) react_go_job
       ''react years experience worked developed built project created''
     = Inr \<lparr> hard_match_score = Fin 50, matched_skills = [''React''],
             missing_skills = [''Go''], critical_missing_skills = [],
             relevance_score_Simple = Fin 61, verdict_Simple = Medium,
             semantic_match_score_Simple = Fin 68,
             scoring_breakdown_Simple =
               \<lparr> skills_match = Fin 50, experience_match = Fin 41,
                 education_match = Fin 51, project_relevance = Fin 46,
                 overall_fit = Fin 61 \<rparr>,
             confidence_score_Simple = Fin 75 \<rparr>"
  by code_simp

lemma simple_high:
  "generateComprehensiveAnalysis (simple_hard 100) react_go_job ''react and go''
     = Inr \<lparr> hard_match_score = Fin 100, matched_skills = [''React''],
             missing_skills = [''Go''], critical_missing_skills = [],
             relevance_score_Simple = Fin 100, verdict_Simple = High,
             semantic_match_score_Simple = Fin 100,
             scoring_breakdown_Simple =
               \<lparr> skills_match = Fin 100, experience_match = Fin 80,
                 education_match = Fin 90, project_relevance = Fin 85,
                 overall_fit = Fin 100 \<rparr>,
             confidence_score_Simple = Fin 95 \<rparr>"
  by code_simp

theorem verdict_thresholds_witness:
  "generateVerdict (Fin 85) = High \<and> generateVerdict (Fin 70) = Medium \<and> generateVerdict (Fin 30) = Low
   \<and> (case generateComprehensiveAnalysis (simple_hard 100) react_go_job ''react and go'' of
         Inr report \<Rightarrow> verdict_Simple report = High | Inl e \<Rightarrow> False)
   \<and> (case generateComprehensiveAnalysis (simple_hard 50) react_go_job
               ''react years experience worked developed built project created'' of
         Inr report \<Rightarrow> verdict_Simple report = Medium | Inl e \<Rightarrow> False)
   \<and> (case generateComprehensiveAnalysis (simple_hard 50) react_go_job ''react'' of
         Inr report \<Rightarrow> verdict_Simple report = Low | Inl e \<Rightarrow> False)"
  using verdict_thresholds
          [where x = 85 and y = 100 and hardMatch = "simple_hard 100" and jobDescription = react_go_job
             and resumeText = "''react and go''"]
        verdict_thresholds
          [where x = 70 and y = 61 and hardMatch = "simple_hard 50" and jobDescription = react_go_job
             and resumeText = "''react years experience worked developed built project created''"]
        verdict_thresholds
          [where x = 30 and y = 50 and hardMatch = "simple_hard 50" and jobDescription = react_go_job
             and resumeText = "''react''"]
  unfolding simple_low simple_medium simple_high
  by simp

section \<open>Defaults of the report\<close>

text \<open>
  For every semantic result object, \<open>combineAnalysisResults\<close> puts a fixed default in
  the place of each optional field that is absent or falsy: the empty list for every
  list of the qualitative part, 85 for the confidence score, and for the scoring
  breakdown an object made of the hard match score, 70, 60, 65 and the relevance score.
  Each of these fifteen fields of the report is then a defined value.
\<close>

lemma optional_fields_defaulted:
  fixes report :: enhanced_analysis_result
  defines "dflt \<equiv> \<lambda>v d. if truthy v then v else d"
  assumes "report = combineAnalysisResults coerce hardMatch semantic jobDescription now"
  shows "missing_certifications report = dflt (get_prop semantic ''missing_certifications'') (JArr [])
       \<and> missing_projects report = dflt (get_prop semantic ''missing_projects'') (JArr [])
       \<and> experience_gaps report = dflt (get_prop semantic ''experience_gaps'') (JArr [])
       \<and> education_gaps report = dflt (get_prop semantic ''education_gaps'') (JArr [])
       \<and> strengths report = dflt (get_prop semantic ''strengths'') (JArr [])
       \<and> weaknesses report = dflt (get_prop semantic ''weaknesses'') (JArr [])
       \<and> improvement_suggestions report = dflt (get_prop semantic ''improvement_suggestions'') (JArr [])
       \<and> recommended_courses report = dflt (get_prop semantic ''recommended_courses'') (JArr [])
       \<and> recommended_projects report = dflt (get_prop semantic ''recommended_projects'') (JArr [])
       \<and> immediate_actions report = dflt (get_prop semantic ''immediate_actions'') (JArr [])
       \<and> short_term_goals report = dflt (get_prop semantic ''short_term_goals'') (JArr [])
       \<and> long_term_goals report = dflt (get_prop semantic ''long_term_goals'') (JArr [])
       \<and> confidence_score report = dflt (get_prop semantic ''confidence_score'') (JNum (Fin 85))
       \<and> scoring_breakdown report
           = dflt (get_prop semantic ''scoring_breakdown'')
               (JObj [(''skills_match'', JNum (hard_match_score hardMatch)),
                      (''experience_match'', JNum (Fin 70)),
                      (''education_match'', JNum (Fin 60)),
                      (''project_relevance'', JNum (Fin 65)),
                      (''overall_fit'', JNum (relevance_score report))])
       \<and> skills_breakdown report
           = dflt (get_prop semantic ''skills_breakdown'')
               (JObj [(''technical_skills'', JObj [(''matched'', JArr []), (''missing'', JArr [])]),
                      (''soft_skills'', JObj [(''matched'', JArr []), (''missing'', JArr [])]),
                      (''domain_knowledge'', JObj [(''matched'', JArr []), (''missing'', JArr [])])])
       \<and> list_all (\<lambda>v. truthy v \<and> v \<noteq> JUndefined)
             [missing_certifications report,
              missing_projects report,
              experience_gaps report,
              education_gaps report,
              strengths report,
              weaknesses report,
              improvement_suggestions report,
              recommended_courses report,
              recommended_projects report,
              immediate_actions report,
              short_term_goals report,
              long_term_goals report,
              confidence_score report,
              scoring_breakdown report,
              skills_breakdown report]"
proof -
  have g1: "missing_certifications report = dflt (get_prop semantic ''missing_certifications'') (JArr [])"
    by (simp add: assms combineAnalysisResults_def Let_def js_or_def)
  have g2: "missing_projects report = dflt (get_prop semantic ''missing_projects'') (JArr [])"
    by (simp add: assms combineAnalysisResults_def Let_def js_or_def)
  have g3: "experience_gaps report = dflt (get_prop semantic ''experience_gaps'') (JArr [])"
    by (simp add: assms combineAnalysisResults_def Let_def js_or_def)
  have g4: "education_gaps report = dflt (get_prop semantic ''education_gaps'') (JArr [])"
    by (simp add: assms combineAnalysisResults_def Let_def js_or_def)
  have g5: "strengths report = dflt (get_prop semantic ''strengths'') (JArr [])"
    by (simp add: assms combineAnalysisResults_def Let_def js_or_def)
  have g6: "weaknesses report = dflt (get_prop semantic ''weaknesses'') (JArr [])"
    by (simp add: assms combineAnalysisResults_def Let_def js_or_def)
  have g7: "improvement_suggestions report = dflt (get_prop semantic ''improvement_suggestions'') (JArr [])"
    by (simp add: assms combineAnalysisResults_def Let_def js_or_def)
  have g8: "recommended_courses report = dflt (get_prop semantic ''recommended_courses'') (JArr [])"
    by (simp add: assms combineAnalysisResults_def Let_def js_or_def)
  have g9: "recommended_projects report = dflt (get_prop semantic ''recommended_projects'') (JArr [])"
    by (simp add: assms combineAnalysisResults_def Let_def js_or_def)
  have g10: "immediate_actions report = dflt (get_prop semantic ''immediate_actions'') (JArr [])"
    by (simp add: assms combineAnalysisResults_def Let_def js_or_def)
  have g11: "short_term_goals report = dflt (get_prop semantic ''short_term_goals'') (JArr [])"
    by (simp add: assms combineAnalysisResults_def Let_def js_or_def)
  have g12: "long_term_goals report = dflt (get_prop semantic ''long_term_goals'') (JArr [])"
    by (simp add: assms combineAnalysisResults_def Let_def js_or_def)
  have g13: "confidence_score report = dflt (get_prop semantic ''confidence_score'') (JNum (Fin 85))"
    by (simp add: assms combineAnalysisResults_def Let_def js_or_def)
  have g14: "scoring_breakdown report
           = dflt (get_prop semantic ''scoring_breakdown'')
               (JObj [(''skills_match'', JNum (hard_match_score hardMatch)),
                      (''experience_match'', JNum (Fin 70)),
                      (''education_match'', JNum (Fin 60)),
                      (''project_relevance'', JNum (Fin 65)),
                      (''overall_fit'', JNum (relevance_score report))])"
    by (simp add: assms combineAnalysisResults_def Let_def js_or_def)
  have g15: "skills_breakdown report
           = dflt (get_prop semantic ''skills_breakdown'')
               (JObj [(''technical_skills'', JObj [(''matched'', JArr []), (''missing'', JArr [])]),
                      (''soft_skills'', JObj [(''matched'', JArr []), (''missing'', JArr [])]),
                      (''domain_knowledge'', JObj [(''matched'', JArr []), (''missing'', JArr [])])])"
    by (simp add: assms combineAnalysisResults_def Let_def js_or_def)
  have t1: "truthy (missing_certifications report) \<and> missing_certifications report \<noteq> JUndefined"
    unfolding g1 dflt_def by auto
  have t2: "truthy (missing_projects report) \<and> missing_projects report \<noteq> JUndefined"
    unfolding g2 dflt_def by auto
  have t3: "truthy (experience_gaps report) \<and> experience_gaps report \<noteq> JUndefined"
    unfolding g3 dflt_def by auto
  have t4: "truthy (education_gaps report) \<and> education_gaps report \<noteq> JUndefined"
    unfolding g4 dflt_def by auto
  have t5: "truthy (strengths report) \<and> strengths report \<noteq> JUndefined"
    unfolding g5 dflt_def by auto
  have t6: "truthy (weaknesses report) \<and> weaknesses report \<noteq> JUndefined"
    unfolding g6 dflt_def by auto
  have t7: "truthy (improvement_suggestions report) \<and> improvement_suggestions report \<noteq> JUndefined"
    unfolding g7 dflt_def by auto
  have t8: "truthy (recommended_courses report) \<and> recommended_courses report \<noteq> JUndefined"
    unfolding g8 dflt_def by auto
  have t9: "truthy (recommended_projects report) \<and> recommended_projects report \<noteq> JUndefined"
    unfolding g9 dflt_def by auto
  have t10: "truthy (immediate_actions report) \<and> immediate_actions report \<noteq> JUndefined"
    unfolding g10 dflt_def by auto
  have t11: "truthy (short_term_goals report) \<and> short_term_goals report \<noteq> JUndefined"
    unfolding g11 dflt_def by auto
  have t12: "truthy (long_term_goals report) \<and> long_term_goals report \<noteq> JUndefined"
    unfolding g12 dflt_def by auto
  have t13: "truthy (confidence_score report) \<and> confidence_score report \<noteq> JUndefined"
    unfolding g13 dflt_def by auto
  have t14: "truthy (scoring_breakdown report) \<and> scoring_breakdown report \<noteq> JUndefined"
    unfolding g14 dflt_def by auto
  have t15: "truthy (skills_breakdown report) \<and> skills_breakdown report \<noteq> JUndefined"
    unfolding g15 dflt_def by auto
  have d: "list_all (\<lambda>v. truthy v \<and> v \<noteq> JUndefined)
             [missing_certifications report,
              missing_projects report,
              experience_gaps report,
              education_gaps report,
              strengths report,
              weaknesses report,
              improvement_suggestions report,
              recommended_courses report,
              recommended_projects report,
              immediate_actions report,
              short_term_goals report,
              long_term_goals report,
              confidence_score report,
              scoring_breakdown report,
              skills_breakdown report]"
    using t1 t2 t3 t4 t5 t6 t7 t8 t9 t10 t11 t12 t13 t14 t15 by simp
  show ?thesis
    by (intro conjI g1 g2 g3 g4 g5 g6 g7 g8 g9 g10 g11 g12 g13 g14 g15 d)
qed

lemma optional_fields_defaulted_example:
  "strengths (combineAnalysisResults (\<lambda>v. NaN) sample_hard partial_semantic sample_job ''2024-09-21T10:00:00.000Z'')
     = JArr [JStr ''Solid React experience'']
   \<and> weaknesses (combineAnalysisResults (\<lambda>v. NaN) sample_hard partial_semantic sample_job ''2024-09-21T10:00:00.000Z'')
     = JArr []
   \<and> confidence_score (combineAnalysisResults (\<lambda>v. NaN) sample_hard partial_semantic sample_job ''2024-09-21T10:00:00.000Z'')
     = JNum (Fin 85)"
  using optional_fields_defaulted
      [where report = "combineAnalysisResults (\<lambda>v. NaN) sample_hard partial_semantic sample_job ''2024-09-21T10:00:00.000Z''"
         and coerce = "\<lambda>v. NaN" and hardMatch = sample_hard and semantic = partial_semantic
         and jobDescription = sample_job and now = "''2024-09-21T10:00:00.000Z''", OF refl]
  by (simp add: get_prop_def partial_semantic_def)

text \<open>
  C9. Every optional field of the semantic result gets a default, so that every field
  of the report is to be defined. \<open>semantic_match_score\<close> has no default: for a reply with
  the empty object the report has the semantic score \<open>undefined\<close> and the relevance score
  \<open>NaN\<close>, next to the defaults of the other fields.
\<close>

theorem semantic_score_undefined:
  "case analyzeResumeEnhanced (\<lambda>v. NaN) parse_empty_object (reply_with ''{}'')
          ''2024-09-21T10:00:00.000Z'' sample_resume sample_job of
     Inr report \<Rightarrow>
       semantic_match_score report = JUndefined
       \<and> relevance_score report = NaN
       \<and> verdict report = Low
       \<and> strengths report = JArr []
       \<and> confidence_score report = JNum (Fin 85)
   | Inl e \<Rightarrow> False"
  by code_simp

lemma combineAnalysisResults_AI_defaults_score:
  "semanticMatchScore (combineAnalysisResults_AI hardMatch (empty_partial \<lparr> semanticMatchScore_opt := None \<rparr>))
     = Fin 0"
  by (simp add: combineAnalysisResults_AI_def num_or_def empty_partial_def Let_def)

section \<open>Failures of the semantic evaluator\<close>

lemma fallback_fields:
  "get_prop getFallbackSemanticAnalysis ''semantic_match_score'' = JNum (Fin 65)"
  "get_prop getFallbackSemanticAnalysis ''strengths''
     = JArr [JStr ''Relevant technical background'', JStr ''Good educational foundation'']"
  "get_prop getFallbackSemanticAnalysis ''weaknesses''
     = JArr [JStr ''Limited industry experience'', JStr ''Could improve project portfolio'']"
  "get_prop getFallbackSemanticAnalysis ''improvement_suggestions''
     = JArr [JStr ''Build more comprehensive projects'', JStr ''Contribute to open source'',
             JStr ''Get relevant certifications'', JStr ''Gain hands-on experience'']"
  "get_prop getFallbackSemanticAnalysis ''confidence_score'' = JNum (Fin 75)"
  by (simp_all add: get_prop_def getFallbackSemanticAnalysis_def)

lemma fallback_report_fields:
  fixes report :: enhanced_analysis_result
  assumes "report = combineAnalysisResults coerce hardMatch getFallbackSemanticAnalysis jobDescription now"
  shows "semantic_match_score report = JNum (Fin 65)"
    and "strengths report
           = JArr [JStr ''Relevant technical background'', JStr ''Good educational foundation'']"
    and "weaknesses report
           = JArr [JStr ''Limited industry experience'', JStr ''Could improve project portfolio'']"
    and "improvement_suggestions report
           = JArr [JStr ''Build more comprehensive projects'', JStr ''Contribute to open source'',
                   JStr ''Get relevant certifications'', JStr ''Gain hands-on experience'']"
    and "confidence_score report = JNum (Fin 75)"
  unfolding assms
  by (simp_all add: combineAnalysisResults_def Let_def js_or_def fallback_fields)

lemma llm_reply_failures:
  assumes "outcome = None
         \<or> (\<exists>response. outcome = Some response \<and> \<not> ok response)
         \<or> (\<exists>response. outcome = Some response \<and> json_body response = None)
         \<or> (\<exists>replyText. outcome = reply_with replyText
               \<and> (regex_match_braces replyText = None
                  \<or> (\<exists>matched. regex_match_braces replyText = Some matched \<and> json_parse matched = None)))"
  shows "\<exists>e. llm_reply json_parse outcome = Inl e"
  using assms
proof (elim disjE exE conjE)
  assume "outcome = None"
  then show ?thesis by (simp add: llm_reply_def)
next
  fix response assume "outcome = Some response" "\<not> ok response"
  then show ?thesis by (simp add: llm_reply_def)
next
  fix response assume "outcome = Some response" "json_body response = None"
  then show ?thesis by (simp add: llm_reply_def)
next
  fix replyText assume "outcome = reply_with replyText" "regex_match_braces replyText = None"
  then show ?thesis
    by (simp add: llm_reply_def reply_with_def gemini_body_def and_then_def get_prop_def)
next
  fix replyText matched
  assume "outcome = reply_with replyText" "regex_match_braces replyText = Some matched"
    "json_parse matched = None"
  then show ?thesis
    by (simp add: llm_reply_def reply_with_def gemini_body_def and_then_def get_prop_def)
qed

lemma performHardMatch_returns:
  assumes "\<forall>s \<in> set (must_have_skills jd) \<union> set (good_to_have_skills jd).
             toLowerCase s \<notin> set inherited_keys"
  shows "\<exists>hm. performHardMatch resumeText jd = Inr hm"
proof (cases "performHardMatch resumeText jd")
  case (Inl e)
  from performHardMatch_error [OF Inl] assms show ?thesis by blast
next
  case (Inr hm)
  then show ?thesis by blast
qed

lemma analyzeResumeEnhanced_eq:
  "analyzeResumeEnhanced coerce json_parse outcome now resumeText jd
     = (case performHardMatch resumeText jd of
          Inr hm \<Rightarrow> Inr (combineAnalysisResults coerce hm (performLLMAnalysis json_parse outcome) jd now)
        | Inl e \<Rightarrow> Inl e)"
  by (simp add: analyzeResumeEnhanced_def getFallbackAnalysis_def and_then_def split: sum.splits)

lemma blocked_reply_fails: "llm_reply json_parse blocked_reply = Inl TypeError"
  by (simp add: llm_reply_def blocked_reply_def and_then_def get_prop_def)

text \<open>
  Every exception of the \<open>try\<close> block of the evaluator is answered with the fallback
  result. The scoring operation then returns the report built from the hard match and
  the fallback values whenever the skill matcher returns, and rejects with the
  \<open>TypeError\<close> of the matcher otherwise.
\<close>

lemma provider_failure_absorbed:
  assumes "llm_reply json_parse outcome = Inl error"
  shows "performLLMAnalysis json_parse outcome = getFallbackSemanticAnalysis
       \<and> (case performHardMatch resumeText jobDescription of
            Inr hardMatch \<Rightarrow>
              analyzeResumeEnhanced coerce json_parse outcome now resumeText jobDescription
                = Inr (combineAnalysisResults coerce hardMatch getFallbackSemanticAnalysis jobDescription now)
              \<and> semantic_match_score
                   (combineAnalysisResults coerce hardMatch getFallbackSemanticAnalysis jobDescription now)
                 = JNum (Fin 65)
              \<and> strengths
                   (combineAnalysisResults coerce hardMatch getFallbackSemanticAnalysis jobDescription now)
                 = JArr [JStr ''Relevant technical background'', JStr ''Good educational foundation'']
              \<and> confidence_score
                   (combineAnalysisResults coerce hardMatch getFallbackSemanticAnalysis jobDescription now)
                 = JNum (Fin 75)
          | Inl e \<Rightarrow>
              analyzeResumeEnhanced coerce json_parse outcome now resumeText jobDescription = Inl e
              \<and> e = TypeError
              \<and> (\<exists>s \<in> set (must_have_skills jobDescription) \<union> set (good_to_have_skills jobDescription).
                   toLowerCase s \<in> set inherited_keys))"
proof -
  have fb: "performLLMAnalysis json_parse outcome = getFallbackSemanticAnalysis"
    using assms by (simp add: performLLMAnalysis_def)
  show ?thesis
  proof (cases "performHardMatch resumeText jobDescription")
    case (Inl e)
    then show ?thesis using fb performHardMatch_error [OF Inl]
      by (simp add: analyzeResumeEnhanced_eq)
  next
    case (Inr hm)
    note f = fallback_report_fields
      [of "combineAnalysisResults coerce hm getFallbackSemanticAnalysis jobDescription now"
          coerce hm jobDescription now, OF refl]
    show ?thesis
      unfolding Inr sum.case
      using fb f(1,2,5) by (simp add: analyzeResumeEnhanced_eq Inr)
  qed
qed


section \<open>The range of the scores\<close>

text \<open>
  C8. The claim is that the three scores of every report are integers in [0,100], also
  when the semantic score comes from the parsed reply. The enhanced service copies the
  parsed \<open>semantic_match_score\<close> as it is: a reply with the score 150 gives a report with
  the semantic score 150 and the relevance score 114.
\<close>

theorem semantic_score_unclamped:
  "case analyzeResumeEnhanced (\<lambda>v. NaN) parse_reply_150 (reply_with reply_150)
          ''2024-09-21T10:00:00.000Z'' sample_resume sample_job of
     Inr report \<Rightarrow>
       hard_match_score report = Fin 60
       \<and> semantic_match_score report = JNum (Fin 150)
       \<and> relevance_score report = Fin 114
   | Inl e \<Rightarrow> False"
  by code_simp

lemma parseAIResponse_score_clamped:
  assumes "semanticMatchScore_opt (parseAIResponse coerce json_parse aiResponse) = Some n"
  shows "n = NaN \<or> (\<exists>x. n = Fin x \<and> 0 \<le> x \<and> x \<le> 100)"
proof -
  have clamp: "math_min (Fin 100) (math_max (Fin 0) v) = NaN
             \<or> (\<exists>x. math_min (Fin 100) (math_max (Fin 0) v) = Fin x \<and> 0 \<le> x \<and> x \<le> 100)" for v
    by (cases v) simp_all
  from assms show ?thesis using clamp
    by (auto simp add: parseAIResponse_def and_then_def empty_partial_def
          split: option.splits sum.splits)
qed

section \<open>The scenario of the specification\<close>

lemma lower_skill_names:
  "toLowerCase ''JavaScript'' = ''javascript''"
  "toLowerCase ''React'' = ''react''"
  "toLowerCase ''Node.js'' = ''node.js''"
  "toLowerCase ''TypeScript'' = ''typescript''"
  "toLowerCase ''AWS'' = ''aws''"
  by code_simp+

lemma lower_variations:
  "toLowerCase ''react'' = ''react''"
  "toLowerCase ''amazon web services'' = ''amazon web services''"
  "toLowerCase ''cloud'' = ''cloud''"
  "toLowerCase ''ec2'' = ''ec2''"
  "toLowerCase ''s3'' = ''s3''"
  "toLowerCase ''lambda'' = ''lambda''"
  by code_simp+

lemma variation_table:
  "map_of skillVariations ''javascript''
     = Some [''js'', ''node.js'', ''nodejs'', ''react'', ''angular'', ''vue'']"
  "map_of skillVariations ''node.js'' = None"
  "map_of skillVariations ''aws''
     = Some [''amazon web services'', ''cloud'', ''ec2'', ''s3'', ''lambda'']"
  "''node.js'' \<notin> set inherited_keys"
  by code_simp+

lemma three_of_five: "math_round (js_mul (js_div (Fin 3) (Fin 5)) (Fin 100)) = Fin 60"
  by code_simp

text \<open>
  C7. The claim expects JavaScript among the missing skills and a score of 40. The
  variation table lists \<open>react\<close> as a variation of \<open>javascript\<close>, so a resume that
  contains React matches JavaScript as well.
\<close>

theorem hard_match_scenario_counterexample:
  "case performHardMatch ''Built React apps with typescript'' sample_job of
     Inr hardMatch \<Rightarrow>
       ''JavaScript'' \<in> set (matched_skills hardMatch)
       \<and> ''JavaScript'' \<notin> set (missing_skills hardMatch)
       \<and> hard_match_score hardMatch = Fin 60
   | Inl e \<Rightarrow> False"
  by (simp add: sample_hard_match)

text \<open>
  C7, amended. For the job with the must-have skills JavaScript, React, Node.js and
  the good-to-have skills TypeScript, AWS, and a resume that contains, in any letter
  case, react and typescript but neither node.js nor aws nor a variation of aws, the hard
  match gives matched = JavaScript, React, TypeScript, missing = Node.js, AWS, critical
  missing = Node.js and the score round(100 * 3 / 5) = 60.
\<close>

theorem hard_match_scenario:
  assumes "must_have_skills jobDescription = [''JavaScript'', ''React'', ''Node.js'']"
    and "good_to_have_skills jobDescription = [''TypeScript'', ''AWS'']"
    and "str_includes (toLowerCase resumeText) ''react''"
    and "str_includes (toLowerCase resumeText) ''typescript''"
    and "\<not> str_includes (toLowerCase resumeText) ''node.js''"
    and "\<not> str_includes (toLowerCase resumeText) ''aws''"
    and "\<forall>variation \<in> set [''amazon web services'', ''cloud'', ''ec2'', ''s3'', ''lambda''].
           \<not> str_includes (toLowerCase resumeText) variation"
  shows "performHardMatch resumeText jobDescription
           = Inr \<lparr> hard_match_score = Fin 60,
                   matched_skills = [''JavaScript'', ''React'', ''TypeScript''],
                   missing_skills = [''Node.js'', ''AWS''],
                   critical_missing_skills = [''Node.js''] \<rparr>"
proof -
  let ?rl = "toLowerCase resumeText"
  have js: "isMatched ?rl ''JavaScript'' = Inr True"
    using assms(3) by (simp add: isMatched_def Let_def lower_skill_names lower_variations variation_table)
  have re: "isMatched ?rl ''React'' = Inr True"
    using assms(3) by (simp add: isMatched_def Let_def lower_skill_names)
  have no: "isMatched ?rl ''Node.js'' = Inr False"
    using assms(5) by (simp add: isMatched_def Let_def lower_skill_names variation_table)
  have ts: "isMatched ?rl ''TypeScript'' = Inr True"
    using assms(4) by (simp add: isMatched_def Let_def lower_skill_names)
  have aw: "isMatched ?rl ''AWS'' = Inr False"
    using assms(6,7) by (simp add: isMatched_def Let_def lower_skill_names lower_variations variation_table)
  have must: "mustHave_forEach ?rl [''JavaScript'', ''React'', ''Node.js''] ([], [])
                = Inr ([''JavaScript'', ''React''], [''Node.js''])"
    by (simp add: js re no)
  have good: "goodToHave_forEach ?rl [''TypeScript'', ''AWS''] ([''JavaScript'', ''React''], [''Node.js''])
                = Inr ([''JavaScript'', ''React'', ''TypeScript''], [''Node.js'', ''AWS''])"
    by (simp add: ts aw)
  have len: "length_num [''JavaScript'', ''React'', ''TypeScript''] = Fin 3"
    by (simp add: length_num_def)
  show ?thesis
    by (simp add: performHardMatch_def Let_def assms(1,2) must good and_then_def len three_of_five
          del: math_round.simps js_mul.simps js_div.simps mustHave_forEach.simps
               goodToHave_forEach.simps)
qed

theorem hard_match_scenario_witness:
  "performHardMatch ''Built React apps with typescript'' sample_job
     = Inr \<lparr> hard_match_score = Fin 60,
             matched_skills = [''JavaScript'', ''React'', ''TypeScript''],
             missing_skills = [''Node.js'', ''AWS''],
             critical_missing_skills = [''Node.js''] \<rparr>"
proof (rule hard_match_scenario)
  show "must_have_skills sample_job = [''JavaScript'', ''React'', ''Node.js'']"
    by (simp add: sample_job_def)
  show "good_to_have_skills sample_job = [''TypeScript'', ''AWS'']"
    by (simp add: sample_job_def)
  show "str_includes (toLowerCase ''Built React apps with typescript'') ''react''" by code_simp
  show "str_includes (toLowerCase ''Built React apps with typescript'') ''typescript''" by code_simp
  show "\<not> str_includes (toLowerCase ''Built React apps with typescript'') ''node.js''" by code_simp
  show "\<not> str_includes (toLowerCase ''Built React apps with typescript'') ''aws''" by code_simp
  show "\<forall>variation \<in> set [''amazon web services'', ''cloud'', ''ec2'', ''s3'', ''lambda''].
           \<not> str_includes (toLowerCase ''Built React apps with typescript'') variation"
    by code_simp
qed

section \<open>The hard match score\<close>

lemma scaled_ratio_close:
  fixes m T :: nat
  assumes "0 < T" "m \<le> T"
  shows "\<bar>fl (fl (of_nat m / of_nat T) * 100) - 100 * of_nat m / of_nat T\<bar> \<le> 201 / 2 ^ 53"
proof -
  define r :: rat where "r = of_nat m / of_nat T"
  have r: "0 \<le> r" "r \<le> 1" using assms by (simp_all add: r_def)
  have "\<bar>fl r - r\<bar> \<le> \<bar>r\<bar> / 2 ^ 53" by (rule fl_error)
  also have "\<dots> \<le> 1 / 2 ^ 53" using r by (simp add: divide_right_mono)
  finally have a: "\<bar>fl r - r\<bar> \<le> 1 / 2 ^ 53" .
  have w: "\<bar>fl r * 100 - 100 * r\<bar> \<le> 100 / 2 ^ 53" using a by linarith
  have "(100::rat) / 2 ^ 53 \<le> 1" by simp
  then have "\<bar>fl r * 100\<bar> \<le> 101" using w r by linarith
  then have "\<bar>fl r * 100\<bar> / 2 ^ 53 \<le> 101 / 2 ^ 53" by (simp add: divide_right_mono)
  moreover have "\<bar>fl (fl r * 100) - fl r * 100\<bar> \<le> \<bar>fl r * 100\<bar> / 2 ^ 53" by (rule fl_error)
  ultimately have "\<bar>fl (fl r * 100) - fl r * 100\<bar> \<le> 101 / 2 ^ 53" by linarith
  with w have "\<bar>fl (fl r * 100) - 100 * r\<bar> \<le> 201 / 2 ^ 53" by linarith
  then show ?thesis by (simp add: r_def)
qed

lemma scaled_ratio_round:
  fixes m T :: nat
  assumes "0 < T" "m \<le> T" "T < 2 ^ 33"
  defines "q \<equiv> 100 * of_nat m / of_nat T :: rat"
  defines "k \<equiv> \<lfloor>fl (fl (of_nat m / of_nat T) * 100) + 1 / 2\<rfloor>"
  shows "\<bar>of_int k - q\<bar> \<le> 1 / 2"
    and "\<not> 2 * T dvd 200 * m + T \<Longrightarrow> k = round q"
proof -
  define v where "v = fl (fl (of_nat m / of_nat T) * 100)"
  define d :: rat where "d = 201 / 2 ^ 53"
  define tT :: rat where "tT = of_nat T"
  have tT: "0 < tT" using assms(1) by (simp add: tT_def)
  have "tT < 2 ^ 33"
    unfolding tT_def using assms(3) by (metis of_nat_less_iff of_nat_numeral of_nat_power)
  then have "2 * tT * d < 2 * 2 ^ 33 * d" by (simp add: d_def)
  also have "\<dots> < 1" by (simp add: d_def)
  finally have small: "2 * tT * d < 1" .
  have close: "\<bar>v - q\<bar> \<le> d"
    unfolding v_def q_def d_def by (rule scaled_ratio_close [OF assms(1,2)])
  have k1: "of_int k \<le> v + 1 / 2" and k2: "v + 1 / 2 < of_int k + 1"
    unfolding k_def v_def by linarith+
  have qT: "q * tT = 100 * of_nat m" using tT by (simp add: q_def tT_def)
  \<comment> \<open>the upper side\<close>
  have e1: "(of_int (2 * int T * k - 200 * int m - int T) :: rat) = 2 * tT * (of_int k - q - 1 / 2)"
    using qT by (simp add: tT_def algebra_simps)
  have "of_int k - q - 1 / 2 \<le> d" using k1 close by linarith
  then have "2 * tT * (of_int k - q - 1 / 2) \<le> 2 * tT * d"
    using tT by (intro mult_left_mono) simp_all
  with small e1 have "(of_int (2 * int T * k - 200 * int m - int T) :: rat) < 1" by linarith
  then have "2 * int T * k - 200 * int m - int T < 1" by (simp only: of_int_less_1_iff)
  then have "2 * int T * k - 200 * int m - int T \<le> 0" by linarith
  then have "(of_int (2 * int T * k - 200 * int m - int T) :: rat) \<le> 0"
    by (simp only: of_int_le_0_iff)
  with e1 have "2 * tT * (of_int k - q - 1 / 2) \<le> 0" by simp
  then have up: "of_int k - q - 1 / 2 \<le> 0" using tT by (simp add: mult_le_0_iff)
  \<comment> \<open>the lower side\<close>
  have e2: "(of_int (200 * int m - int T - 2 * int T * k) :: rat) = 2 * tT * (q - 1 / 2 - of_int k)"
    using qT by (simp add: tT_def algebra_simps)
  have "q - 1 / 2 - of_int k \<le> d" using k2 close by linarith
  then have "2 * tT * (q - 1 / 2 - of_int k) \<le> 2 * tT * d"
    using tT by (intro mult_left_mono) simp_all
  with small e2 have "(of_int (200 * int m - int T - 2 * int T * k) :: rat) < 1" by linarith
  then have n2: "200 * int m - int T - 2 * int T * k < 1" by (simp only: of_int_less_1_iff)
  then have "200 * int m - int T - 2 * int T * k \<le> 0" by linarith
  then have "(of_int (200 * int m - int T - 2 * int T * k) :: rat) \<le> 0"
    by (simp only: of_int_le_0_iff)
  with e2 have "2 * tT * (q - 1 / 2 - of_int k) \<le> 0" by simp
  then have lo: "q - 1 / 2 - of_int k \<le> 0" using tT by (simp add: mult_le_0_iff)
  from up lo show "\<bar>of_int k - q\<bar> \<le> 1 / 2" by linarith
  show "k = round q" if tie: "\<not> 2 * T dvd 200 * m + T"
  proof -
    have "200 * int m - int T - 2 * int T * k \<noteq> 0"
    proof
      assume "200 * int m - int T - 2 * int T * k = 0"
      then have "int (200 * m + T) = int (2 * T) * (k + 1)" by (simp add: algebra_simps)
      then have "int (2 * T) dvd int (200 * m + T)" by (rule dvdI)
      then have "2 * T dvd 200 * m + T" by (simp only: int_dvd_int_iff)
      with tie show False by simp
    qed
    with n2 have "200 * int m - int T - 2 * int T * k < 0" by linarith
    then have "(of_int (200 * int m - int T - 2 * int T * k) :: rat) < 0"
      by (simp only: of_int_less_0_iff)
    with e2 have "2 * tT * (q - 1 / 2 - of_int k) < 0" by simp
    then have "q - 1 / 2 - of_int k < 0" using tT by (simp add: mult_less_0_iff)
    then have "\<lfloor>q + 1 / 2\<rfloor> = k" using up by (intro floor_unique) linarith+
    then show ?thesis by (simp add: round_def)
  qed
qed

lemma matched_length_le:
  assumes "performHardMatch resumeText jd = Inr hm"
  shows "length (matched_skills hm) \<le> length (must_have_skills jd) + length (good_to_have_skills jd)"
proof -
  from performHardMatch_lists [OF assms] obtain zs where
    m: "matched_skills hm
        = filter (\<lambda>s. isMatched (toLowerCase resumeText) s = Inr True) (must_have_skills jd) @ zs"
    and z: "subseq zs (good_to_have_skills jd)" by blast
  have "length zs \<le> length (good_to_have_skills jd)" using z by (rule list_emb_length)
  moreover have "length (filter (\<lambda>s. isMatched (toLowerCase resumeText) s = Inr True) (must_have_skills jd))
                   \<le> length (must_have_skills jd)" by (rule length_filter_le)
  ultimately show ?thesis unfolding m length_append by linarith
qed

lemma floor_half: "\<lfloor>(1::rat) / 2\<rfloor> = 0"
  by (rule floor_unique) simp_all

lemma hard_match_score_value:
  assumes "performHardMatch resumeText jd = Inr hm"
  shows "hard_match_score hm
           = (if 0 < length (must_have_skills jd) + length (good_to_have_skills jd)
              then Fin (of_int \<lfloor>fl (fl (of_nat (length (matched_skills hm))
                                           / of_nat (length (must_have_skills jd) + length (good_to_have_skills jd)))
                                       * 100) + 1 / 2\<rfloor>)
              else Fin 0)"
proof -
  from assms obtain m1 x1 m2 x2 where u: "matched_skills hm = m2"
    "hard_match_score hm =
       math_round
         (if 0 < length (must_have_skills jd) + length (good_to_have_skills jd)
          then js_mul (js_div (length_num m2)
                         (Fin (of_nat (length (must_have_skills jd) + length (good_to_have_skills jd)))))
                 (Fin 100)
          else Fin 0)"
    by (rule performHardMatch_unfold)
  define T where "T = length (must_have_skills jd) + length (good_to_have_skills jd)"
  show ?thesis
    unfolding u T_def [symmetric]
  proof (cases "0 < T")
    case True
    then have "(of_nat T :: rat) \<noteq> 0" by simp
    with True show "math_round (if 0 < T then js_mul (js_div (length_num m2) (Fin (of_nat T))) (Fin 100) else Fin 0)
        = (if 0 < T then Fin (of_int \<lfloor>fl (fl (of_nat (length m2) / of_nat T) * 100) + 1 / 2\<rfloor>) else Fin 0)"
      by (simp add: length_num_def)
  next
    case False
    then show "math_round (if 0 < T then js_mul (js_div (length_num m2) (Fin (of_nat T))) (Fin 100) else Fin 0)
        = (if 0 < T then Fin (of_int \<lfloor>fl (fl (of_nat (length m2) / of_nat T) * 100) + 1 / 2\<rfloor>) else Fin 0)"
      by (simp add: floor_half)
  qed
qed

lemma matched_card:
  assumes "performHardMatch resumeText jd = Inr hm"
    and "distinct (must_have_skills jd @ good_to_have_skills jd)"
  shows "card (set (matched_skills hm)) = length (matched_skills hm)"
    and "card (set (must_have_skills jd) \<union> set (good_to_have_skills jd))
           = length (must_have_skills jd) + length (good_to_have_skills jd)"
proof -
  from performHardMatch_lists [OF assms(1)] obtain zs where
    m: "matched_skills hm
        = filter (\<lambda>s. isMatched (toLowerCase resumeText) s = Inr True) (must_have_skills jd) @ zs"
    and z: "distinct zs"
      "set zs = {s \<in> set (good_to_have_skills jd). isMatched (toLowerCase resumeText) s = Inr True}
               - set (must_have_skills jd)" by blast
  have "distinct (matched_skills hm)" unfolding m using assms(2) z by auto
  then show "card (set (matched_skills hm)) = length (matched_skills hm)" by (rule distinct_card)
  have "card (set (must_have_skills jd @ good_to_have_skills jd))
          = length (must_have_skills jd @ good_to_have_skills jd)"
    using assms(2) by (rule distinct_card)
  then show "card (set (must_have_skills jd) \<union> set (good_to_have_skills jd))
           = length (must_have_skills jd) + length (good_to_have_skills jd)" by simp
qed

lemma simple_default:
  assumes "must_have_skills jd = []" "good_to_have_skills jd = []"
  shows "performHardMatch_Simple resumeText jd
           = Inr \<lparr> hard_match_score = Fin 50, matched_skills = [], missing_skills = [],
                   critical_missing_skills = [] \<rparr>"
  by (simp add: performHardMatch_Simple_def assms and_then_def)

lemma react_twice_hard_match:
  "performHardMatch ''react'' react_twice_job
     = Inr \<lparr> hard_match_score = Fin 50, matched_skills = [''React''], missing_skills = [],
             critical_missing_skills = [] \<rparr>"
  by code_simp

lemma no_skills_hard_match:
  "performHardMatch ''react'' no_skills_job
     = Inr \<lparr> hard_match_score = Fin 0, matched_skills = [], missing_skills = [],
             critical_missing_skills = [] \<rparr>"
  by code_simp

lemma tie_23_of_40: "math_round (js_mul (js_div (Fin 23) (Fin 40)) (Fin 100)) = Fin 57"
  \<comment> \<open>an exact tie: 100 * 23 / 40 is 57.5, the double-precision product is just below it\<close>
  by code_simp

lemma hard_match_score_general:
  assumes "performHardMatch resumeText jd = Inr hm"
  defines "T \<equiv> length (must_have_skills jd) + length (good_to_have_skills jd)"
    and "m \<equiv> length (matched_skills hm)"
  shows "T = 0 \<Longrightarrow> hard_match_score hm = Fin 0"
    and "0 < T \<Longrightarrow> T < 2 ^ 33 \<Longrightarrow>
           \<exists>k. hard_match_score hm = Fin (of_int k)
              \<and> \<bar>of_int k - 100 * of_nat m / of_nat T\<bar> \<le> (1 / 2 :: rat)
              \<and> (\<not> 2 * T dvd 200 * m + T \<longrightarrow> k = round (100 * of_nat m / of_nat T :: rat))"
proof -
  define k where "k = \<lfloor>fl (fl (of_nat m / of_nat T) * 100) + 1 / 2\<rfloor>"
  have val: "hard_match_score hm = (if 0 < T then Fin (of_int k) else Fin 0)"
    unfolding T_def m_def k_def by (rule hard_match_score_value [OF assms(1)])
  have mT: "m \<le> T" unfolding T_def m_def by (rule matched_length_le [OF assms(1)])
  show "T = 0 \<Longrightarrow> hard_match_score hm = Fin 0" using val by simp
  show "\<exists>k. hard_match_score hm = Fin (of_int k)
              \<and> \<bar>of_int k - 100 * of_nat m / of_nat T\<bar> \<le> (1 / 2 :: rat)
              \<and> (\<not> 2 * T dvd 200 * m + T \<longrightarrow> k = round (100 * of_nat m / of_nat T :: rat))"
    if a: "0 < T" "T < 2 ^ 33"
  proof -
    have "hard_match_score hm = Fin (of_int k)" using val a by simp
    moreover have "\<bar>of_int k - 100 * of_nat m / of_nat T\<bar> \<le> (1 / 2 :: rat)"
      unfolding k_def using a mT by (intro scaled_ratio_round(1))
    moreover have "\<not> 2 * T dvd 200 * m + T \<longrightarrow> k = round (100 * of_nat m / of_nat T :: rat)"
      unfolding k_def using a mT by (intro impI scaled_ratio_round(2))
    ultimately show ?thesis by blast
  qed
qed

text \<open>
  For every resume text and every job whose must-have and good-to-have lists share no
  skill and repeat none: the hard match score is 0 when the union of the lists is empty,
  and otherwise it is an integer nearest to 100 * |matched| / |mustHave \<union> goodToHave|;
  it is the round of that quotient whenever the quotient does not lie exactly halfway
  between two integers. (The lists are JavaScript arrays, so their lengths are below
  2^32.) The simple service returns 50 for a job without skills.
\<close>

lemma hard_match_score_formula:
  "(case performHardMatch resumeText jobDescription of
      Inr hardMatch \<Rightarrow>
        distinct (must_have_skills jobDescription @ good_to_have_skills jobDescription)
        \<and> length (must_have_skills jobDescription) + length (good_to_have_skills jobDescription) < 2 ^ 33
        \<longrightarrow>
        (let n = card (set (must_have_skills jobDescription) \<union> set (good_to_have_skills jobDescription));
             m = card (set (matched_skills hardMatch))
         in (n = 0 \<longrightarrow> hard_match_score hardMatch = Fin 0)
          \<and> (0 < n \<longrightarrow>
                (\<exists>k. hard_match_score hardMatch = Fin (of_int k)
                   \<and> \<bar>of_int k - 100 * of_nat m / of_nat n\<bar> \<le> (1 / 2 :: rat)))
          \<and> ((0 < n \<longrightarrow> \<not> 2 * n dvd 200 * m + n) \<longrightarrow>
                hard_match_score hardMatch
                  = claimed_hard_match_score (matched_skills hardMatch)
                      (must_have_skills jobDescription) (good_to_have_skills jobDescription)))
    | Inl e \<Rightarrow>
        e = TypeError
        \<and> (\<exists>s \<in> set (must_have_skills jobDescription) \<union> set (good_to_have_skills jobDescription).
             toLowerCase s \<in> set inherited_keys))
   \<and> (must_have_skills jobDescription = [] \<and> good_to_have_skills jobDescription = [] \<longrightarrow>
        performHardMatch_Simple resumeText jobDescription
          = Inr \<lparr> hard_match_score = Fin 50, matched_skills = [], missing_skills = [],
                  critical_missing_skills = [] \<rparr>)"
proof (rule conjI)
  show "must_have_skills jobDescription = [] \<and> good_to_have_skills jobDescription = [] \<longrightarrow>
        performHardMatch_Simple resumeText jobDescription
          = Inr \<lparr> hard_match_score = Fin 50, matched_skills = [], missing_skills = [],
                  critical_missing_skills = [] \<rparr>"
    using simple_default by blast
next
  show "case performHardMatch resumeText jobDescription of
      Inr hardMatch \<Rightarrow>
        distinct (must_have_skills jobDescription @ good_to_have_skills jobDescription)
        \<and> length (must_have_skills jobDescription) + length (good_to_have_skills jobDescription) < 2 ^ 33
        \<longrightarrow>
        (let n = card (set (must_have_skills jobDescription) \<union> set (good_to_have_skills jobDescription));
             m = card (set (matched_skills hardMatch))
         in (n = 0 \<longrightarrow> hard_match_score hardMatch = Fin 0)
          \<and> (0 < n \<longrightarrow>
                (\<exists>k. hard_match_score hardMatch = Fin (of_int k)
                   \<and> \<bar>of_int k - 100 * of_nat m / of_nat n\<bar> \<le> (1 / 2 :: rat)))
          \<and> ((0 < n \<longrightarrow> \<not> 2 * n dvd 200 * m + n) \<longrightarrow>
                hard_match_score hardMatch
                  = claimed_hard_match_score (matched_skills hardMatch)
                      (must_have_skills jobDescription) (good_to_have_skills jobDescription)))
    | Inl e \<Rightarrow>
        e = TypeError
        \<and> (\<exists>s \<in> set (must_have_skills jobDescription) \<union> set (good_to_have_skills jobDescription).
             toLowerCase s \<in> set inherited_keys)"
  proof (cases "performHardMatch resumeText jobDescription")
    case (Inl e)
    then show ?thesis using performHardMatch_error [OF Inl] by simp
  next
    case (Inr hm)
    define n where
      "n = card (set (must_have_skills jobDescription) \<union> set (good_to_have_skills jobDescription))"
    define m where "m = card (set (matched_skills hm))"
    have main: "(n = 0 \<longrightarrow> hard_match_score hm = Fin 0)
          \<and> (0 < n \<longrightarrow>
                (\<exists>k. hard_match_score hm = Fin (of_int k)
                   \<and> \<bar>of_int k - 100 * of_nat m / of_nat n\<bar> \<le> (1 / 2 :: rat)))
          \<and> ((0 < n \<longrightarrow> \<not> 2 * n dvd 200 * m + n) \<longrightarrow>
                hard_match_score hm
                  = claimed_hard_match_score (matched_skills hm)
                      (must_have_skills jobDescription) (good_to_have_skills jobDescription))"
      if d: "distinct (must_have_skills jobDescription @ good_to_have_skills jobDescription)"
        and small: "length (must_have_skills jobDescription) + length (good_to_have_skills jobDescription) < 2 ^ 33"
    proof -
      have cm: "m = length (matched_skills hm)"
        unfolding m_def by (rule matched_card(1) [OF Inr d])
      have cn: "n = length (must_have_skills jobDescription) + length (good_to_have_skills jobDescription)"
        unfolding n_def by (rule matched_card(2) [OF Inr d])
      have zero: "n = 0 \<longrightarrow> hard_match_score hm = Fin 0"
        using hard_match_score_general(1) [OF Inr] unfolding cn by blast
      have near: "\<exists>k. hard_match_score hm = Fin (of_int k)
              \<and> \<bar>of_int k - 100 * of_nat m / of_nat n\<bar> \<le> (1 / 2 :: rat)
              \<and> (\<not> 2 * n dvd 200 * m + n \<longrightarrow> k = round (100 * of_nat m / of_nat n :: rat))"
        if "0 < n"
        using hard_match_score_general(2) [OF Inr] that small unfolding cn cm by blast
      have cl: "claimed_hard_match_score (matched_skills hm)
                  (must_have_skills jobDescription) (good_to_have_skills jobDescription)
                = (if n = 0 then Fin 0 else Fin (of_int (round (100 * of_nat m / of_nat n :: rat))))"
        by (simp add: claimed_hard_match_score_def Let_def m_def n_def)
      have claimed: "hard_match_score hm
                  = claimed_hard_match_score (matched_skills hm)
                      (must_have_skills jobDescription) (good_to_have_skills jobDescription)"
        if tie: "0 < n \<longrightarrow> \<not> 2 * n dvd 200 * m + n"
      proof (cases "n = 0")
        case True
        then show ?thesis using zero cl by simp
      next
        case False
        then have pos: "0 < n" by simp
        from near [OF pos] tie pos obtain j where "hard_match_score hm = Fin (of_int j)"
          "j = round (100 * of_nat m / of_nat n :: rat)" by blast
        then show ?thesis using cl False by simp
      qed
      from zero near claimed show ?thesis by blast
    qed
    then show ?thesis
      unfolding Inr sum.case Let_def n_def [symmetric] m_def [symmetric] by blast
  qed
qed

lemma hard_match_score_formula_example:
  "claimed_hard_match_score [''JavaScript'', ''React'', ''TypeScript'']
       (must_have_skills sample_job) (good_to_have_skills sample_job) = Fin 60
   \<and> performHardMatch_Simple ''react'' no_skills_job
       = Inr \<lparr> hard_match_score = Fin 50, matched_skills = [], missing_skills = [],
               critical_missing_skills = [] \<rparr>"
proof -
  note a = hard_match_score_formula
      [where resumeText = "''Built React apps with typescript''" and jobDescription = sample_job,
       unfolded sample_hard_match sum.case]
  note b = hard_match_score_formula
      [where resumeText = "''react''" and jobDescription = no_skills_job,
       unfolded no_skills_hard_match sum.case]
  have "hard_match_score \<lparr> hard_match_score = Fin 60,
             matched_skills = [''JavaScript'', ''React'', ''TypeScript''],
             missing_skills = [''Node.js'', ''AWS''],
             critical_missing_skills = [''Node.js''] \<rparr>
          = claimed_hard_match_score [''JavaScript'', ''React'', ''TypeScript'']
              (must_have_skills sample_job) (good_to_have_skills sample_job)"
    using a by (simp add: sample_job_def Let_def)
  moreover have "performHardMatch_Simple ''react'' no_skills_job
       = Inr \<lparr> hard_match_score = Fin 50, matched_skills = [], missing_skills = [],
               critical_missing_skills = [] \<rparr>"
    using b by (simp add: no_skills_job_def)
  ultimately show ?thesis by simp
qed

text \<open>
  C3. The hard match score is round(100 * |matched| / |mustHave \<union> goodToHave|) over the
  distinct skills of the two lists. For a job that lists React in both lists and a resume
  that contains React, the enhanced matcher keeps React once among the matched skills
  but divides by the sum of the two list lengths: 1 of 2, the score 50, where the claim
  gives 100. The simple matcher counts the skill twice on both sides and gives 100.
\<close>

theorem hard_match_score_duplicate_skill:
  "(case performHardMatch ''react'' react_twice_job of
      Inr hardMatch \<Rightarrow>
        matched_skills hardMatch = [''React''] \<and> missing_skills hardMatch = []
        \<and> hard_match_score hardMatch = Fin 50
        \<and> claimed_hard_match_score (matched_skills hardMatch)
            (must_have_skills react_twice_job) (good_to_have_skills react_twice_job) = Fin 100
    | Inl e \<Rightarrow> False)
   \<and> (case performHardMatch_Simple ''react'' react_twice_job of
        Inr hardMatch \<Rightarrow>
          matched_skills hardMatch = [''React'', ''React'']
          \<and> hard_match_score hardMatch = Fin 100
      | Inl e \<Rightarrow> False)"
  by code_simp

end
